theory Spec2Isabelle
  imports Complex_Main "HOL-Library.Sublist" "HOL-Library.AList"
begin

section \<open>Values, files and the world the script runs in\<close>

text \<open>
  The module \<^verbatim>\<open>comment_removal/utils/mutils.py\<close> is glue code: every function threads
  data between the file system, the encoders, numpy, pandas and scikit-learn. The
  embedding keeps the control flow of each function (the branches, the
  \<^verbatim>\<open>try/except/else\<close> blocks, the order of the calls) and makes the effects explicit:
  a \<open>world\<close> holds the files and the chronological trace of log records and library
  calls; every function takes the world and returns its result with the new world; a
  raised exception is the \<open>Inl\<close> of a sum.

  The cells of an array or a table are integers, floats or strings. No arithmetic is
  done on a float here, so a real number stands for it.
\<close>

type_synonym path = string

datatype scalar = SInt int | SFloat real | SStr string

datatype ndarray = NdArray (shape: "nat list") (elems: "scalar list")

text \<open>
  The encoded inputs that \<^verbatim>\<open>encode_or_load_data\<close> hands on are either the list
  \<^verbatim>\<open>[]\<close> both variables start with, or an array.
\<close>

datatype inputs = EmptyList | Array ndarray

text \<open>
  The exceptions are the subclasses of Python's \<^verbatim>\<open>Exception\<close>, the ones
  \<^verbatim>\<open>except Exception\<close> catches.
\<close>

datatype exn =
    UnboundLocalError string
  | AttributeError string
  | TypeError string
  | IndexError string
  | KeyError string
  | ValueError string
  | FileNotFoundError path
  | OSError path
  | OtherException string

datatype estimator =
    RandomForestClassifier (max_depth: nat) (n_estimators: nat) (max_features: nat)
      (n_jobs: nat) (rf_random_state: int) (rf_verbose: bool)
  | SVC (gamma: string) (svc_random_state: int) (svc_verbose: bool)
  | MLPClassifier (hidden_layer_sizes: "nat list") (activation: string)
      (early_stopping: bool) (mlp_random_state: int)

text \<open>
  A classifier object: the estimator as constructed, and the data \<^verbatim>\<open>fit\<close> was
  last called with (\<open>None\<close> before any fit).
\<close>

record classifier =
  params :: estimator
  fitted_on :: "(inputs \<times> ndarray) option"

text \<open>
  A pandas frame, column by column, with its index; a row taken out of it is a series.
\<close>

record dataframe =
  df_index :: "scalar list"
  df_cols :: "(string \<times> scalar list) list"

record series =
  s_name :: scalar
  s_items :: "(string \<times> scalar) list"

text \<open>
  What a file holds: an array written by \<^verbatim>\<open>np.save\<close>, a classifier written by
  \<^verbatim>\<open>joblib.dump\<close>, a delimited table (separator, header, rows), or anything else.
\<close>

datatype file_content =
    NpyFile ndarray
  | PklFile classifier
  | TableFile string "string list" "scalar list list"
  | OtherFile string

datatype level = DEBUG | INFO | ERROR

datatype arg = AStr string | AShape "nat list" | ANames "string list" | AFloat real

text \<open>
  The trace: a log record carries the message template and the values formatted into
  it; a library call carries the arguments it was called with.
\<close>

datatype event =
    Log level string "arg list"
  | LogException exn
  | Print string
  | LaserEncode "scalar list" bool
  | LSIFitTransform nat "scalar list"
  | NpLoad path
  | NpSave path ndarray
  | Fit estimator inputs ndarray
  | JoblibDump path
  | JoblibLoad path
  | Predict inputs
  | Score inputs ndarray
  | ClassificationReport ndarray
  | PredictProba inputs
  | RocAucScore
  | RocCurves
  | ReadCsv path
  | ToCsv path

text \<open>
  \<open>writable\<close> says at which paths a write succeeds (the directory exists, the
  permissions allow it): \<^verbatim>\<open>np.save\<close>, \<^verbatim>\<open>joblib.dump\<close> and \<^verbatim>\<open>to_csv\<close> raise elsewhere.
\<close>

record world =
  files :: "path \<rightharpoonup> file_content"
  writable :: "path \<Rightarrow> bool"
  trace :: "event list"

definition emit :: "event \<Rightarrow> world \<Rightarrow> world" where
  "emit e w = w\<lparr>trace := trace w @ [e]\<rparr>"

definition write_file :: "path \<Rightarrow> file_content \<Rightarrow> world \<Rightarrow> world" where
  "write_file p f w = w\<lparr>files := (files w)(p \<mapsto> f)\<rparr>"

text \<open>The fields of \<^verbatim>\<open>args\<close> that the module reads.\<close>

record args =
  workdir :: string
  clf_save_name :: string
  clf_type :: string
  encoder_type :: string
  parallel :: bool
  test_file :: path
  predictions_file :: path

section \<open>Library calls\<close>

text \<open>
  \<^verbatim>\<open>os.path.join(a, b)\<close> on POSIX: an absolute \<open>b\<close> replaces \<open>a\<close>; otherwise
  \<open>b\<close> is appended, after a separator unless \<open>a\<close> is empty or ends with one.
\<close>

definition os_path_join :: "path \<Rightarrow> path \<Rightarrow> path" where
  "os_path_join a b =
     (if (case b of [] \<Rightarrow> False | c # _ \<Rightarrow> c = CHR ''/'') then b
      else if a = [] \<or> last a = CHR ''/'' then a @ b
      else a @ ''/'' @ b)"

definition os_path_exists :: "path \<Rightarrow> world \<Rightarrow> bool" where
  "os_path_exists p w = (files w p \<noteq> None)"

definition joblib_dump :: "classifier \<Rightarrow> path \<Rightarrow> world \<Rightarrow> (exn + unit) \<times> world" where
  "joblib_dump clf p w =
     (let w1 = emit (JoblibDump p) w in
      if writable w1 p then (Inr (), write_file p (PklFile clf) w1)
      else (Inl (OSError p), w1))"

definition joblib_load :: "path \<Rightarrow> world \<Rightarrow> (exn + classifier) \<times> world" where
  "joblib_load p w =
     (let w1 = emit (JoblibLoad p) w in
      case files w1 p of
        None \<Rightarrow> (Inl (FileNotFoundError p), w1)
      | Some (PklFile clf) \<Rightarrow> (Inr clf, w1)
      | Some _ \<Rightarrow> (Inl (OtherException ''UnpicklingError''), w1))"

section \<open>save_model and load_model\<close>

definition save_model :: "args \<Rightarrow> classifier \<Rightarrow> world \<Rightarrow> (exn + unit) \<times> world" where
  "save_model a clf w =
     (let save_path = os_path_join (workdir a) (clf_save_name a @ ''_'' @ clf_type a @ ''.pkl'')
      in joblib_dump clf save_path w)"

definition load_model :: "args \<Rightarrow> world \<Rightarrow> (exn + classifier) \<times> world" where
  "load_model a w =
     (let save_path = os_path_join (workdir a) (clf_save_name a @ ''_'' @ clf_type a @ ''.pkl'')
      in joblib_load save_path w)"

section \<open>Encoders, numpy and the data loader\<close>

text \<open>
  The encoders (\<^verbatim>\<open>comment_removal.encoders\<close>), \<^verbatim>\<open>read_csv\<close>
  (\<^verbatim>\<open>comment_removal.utils.loaders\<close>), \<^verbatim>\<open>plot_roc\<close> and the scikit-learn
  estimators and metrics are not part of this module: they are parameters, collected in
  a record. Each may raise. \<open>laser_encode\<close> stands for \<^verbatim>\<open>LaserEncoder(args).encode\<close> and
  \<open>lsi_fit_transform\<close> for \<^verbatim>\<open>LSIEncoder(keep_n=n).fit_transform\<close>; \<open>clf_fit\<close> returns the
  exception \<^verbatim>\<open>clf.fit\<close> raised, if any; \<open>roc_auc_score\<close> stands for the numerics of
  \<^verbatim>\<open>roc_curve\<close> up to its log record and \<open>roc_curves\<close> for the ones after it (the
  curve of each class, the micro-average and \<^verbatim>\<open>plot_roc\<close>; the event \<open>RocCurves\<close> marks
  their start). The decorator \<^verbatim>\<open>timeit\<close> is taken to return what the function
  it wraps returns.
\<close>

record lib =
  laser_encode :: "args \<Rightarrow> scalar list \<Rightarrow> bool \<Rightarrow> exn + ndarray"
  lsi_fit_transform :: "nat \<Rightarrow> scalar list \<Rightarrow> exn + ndarray"
  clf_fit :: "estimator \<Rightarrow> inputs \<Rightarrow> ndarray \<Rightarrow> exn option"
  clf_predict :: "classifier \<Rightarrow> inputs \<Rightarrow> exn + ndarray"
  clf_score :: "classifier \<Rightarrow> inputs \<Rightarrow> ndarray \<Rightarrow> exn + real"
  clf_predict_proba :: "classifier \<Rightarrow> inputs \<Rightarrow> exn + ndarray"
  classification_report :: "ndarray \<Rightarrow> ndarray \<Rightarrow> string list \<Rightarrow> exn + string"
  roc_auc_score :: "ndarray \<Rightarrow> ndarray \<Rightarrow> exn + real"
  roc_curves :: "ndarray \<Rightarrow> ndarray \<Rightarrow> exn option"
  read_csv :: "(path \<rightharpoonup> file_content) \<Rightarrow> path \<Rightarrow> exn + dataframe"

text \<open>
  \<^verbatim>\<open>data_loader.get(column, set=...)\<close>: the column of one of the two sets, or an
  exception.
\<close>

type_synonym data_loader = "string \<Rightarrow> string \<Rightarrow> exn + scalar list"

definition np_array :: "scalar list \<Rightarrow> ndarray" where
  "np_array xs = NdArray [length xs] xs"

definition np_load :: "path \<Rightarrow> world \<Rightarrow> (exn + ndarray) \<times> world" where
  "np_load p w =
     (let w1 = emit (NpLoad p) w in
      case files w1 p of
        None \<Rightarrow> (Inl (FileNotFoundError p), w1)
      | Some (NpyFile m) \<Rightarrow> (Inr m, w1)
      | Some _ \<Rightarrow> (Inl (ValueError ''cannot load file as an array''), w1))"

definition np_save :: "path \<Rightarrow> ndarray \<Rightarrow> world \<Rightarrow> (exn + unit) \<times> world" where
  "np_save p m w =
     (let w1 = emit (NpSave p m) w in
      if writable w1 p then (Inr (), write_file p (NpyFile m) w1)
      else (Inl (OSError p), w1))"

section \<open>encode_text\<close>

text \<open>
  The \<^verbatim>\<open>if/elif\<close> has no \<^verbatim>\<open>else\<close>: for any other encoder name
  \<^verbatim>\<open>encoded_comments\<close> is unbound when the log record reads its shape. Every exception
  raised inside the \<^verbatim>\<open>try\<close> is logged and raised again.
\<close>

definition encode_text :: "lib \<Rightarrow> args \<Rightarrow> scalar list \<Rightarrow> world \<Rightarrow> (exn + ndarray) \<times> world" where
  "encode_text L a comments w =
     (case (if encoder_type a = ''LASER''
            then (laser_encode L a comments (parallel a),
                  emit (LaserEncode comments (parallel a)) w)
            else if encoder_type a = ''LSI''
            then (lsi_fit_transform L 10000 comments,
                  emit (LSIFitTransform 10000 comments) w)
            else (Inl (UnboundLocalError ''encoded_comments''), w)) of
        (Inr encoded_comments, w1) \<Rightarrow>
          (Inr encoded_comments,
           emit (Log INFO ''Comments encoded: {}'' [AShape (shape encoded_comments)]) w1)
      | (Inl e, w1) \<Rightarrow>
          (Inl e, emit (Log ERROR ''Error while encoding inputs!'' []) w1))"

section \<open>load_encoded_inputs\<close>

text \<open>
  The \<^verbatim>\<open>except\<close> branch logs and falls off the end of the function: the result is
  Python's \<^verbatim>\<open>None\<close>, here \<open>None\<close>.
\<close>

definition load_encoded_inputs ::
  "path \<Rightarrow> path \<Rightarrow> world \<Rightarrow> (ndarray \<times> ndarray) option \<times> world" where
  "load_encoded_inputs training_mat_path test_mat_path w =
     (let w1 = emit (Log INFO ''Loading encoded training matrix from: {}''
                       [AStr training_mat_path]) w in
      case np_load training_mat_path w1 of
        (Inl e, w2) \<Rightarrow>
          (None, emit (LogException e)
                   (emit (Log ERROR ''Error loading encoded inputs as numpy file'' []) w2))
      | (Inr train_data_encoded, w2) \<Rightarrow>
          (let w3 = emit (Log INFO ''Loading encoded test matrix from: {}''
                            [AStr test_mat_path]) w2 in
           case np_load test_mat_path w3 of
             (Inl e, w4) \<Rightarrow>
               (None, emit (LogException e)
                        (emit (Log ERROR ''Error loading encoded inputs as numpy file'' []) w4))
           | (Inr test_data_encoded, w4) \<Rightarrow>
               (Some (train_data_encoded, test_data_encoded), w4)))"

section \<open>encode_or_load_data\<close>

text \<open>The two local path variables, as functions of \<^verbatim>\<open>args\<close>.\<close>

definition encoded_train_inputs_path :: "args \<Rightarrow> path" where
  "encoded_train_inputs_path a =
     os_path_join (workdir a) (''training'' @ ''_'' @ encoder_type a @ ''-comments.npy'')"

definition encoded_test_inputs_path :: "args \<Rightarrow> path" where
  "encoded_test_inputs_path a =
     os_path_join (workdir a) (''test'' @ ''_'' @ encoder_type a @ ''-comments.npy'')"

text \<open>
  The block under \<^verbatim>\<open>if not os.path.exists(encoded_train_inputs_path)\<close>: the
  \<^verbatim>\<open>try\<close> covers \<^verbatim>\<open>data_loader.get\<close> and \<^verbatim>\<open>encode_text\<close>; its \<^verbatim>\<open>except\<close>
  logs and goes on, leaving the variable at \<^verbatim>\<open>[]\<close>; its \<^verbatim>\<open>else\<close> saves the matrix,
  outside the \<^verbatim>\<open>try\<close>, so that an exception of \<^verbatim>\<open>np.save\<close> propagates.
\<close>

definition encode_train_block ::
  "lib \<Rightarrow> args \<Rightarrow> data_loader \<Rightarrow> inputs \<Rightarrow> world \<Rightarrow> (exn + inputs) \<times> world" where
  "encode_train_block L a data_loader encoded_training_inputs w =
     (let w1 = emit (Log INFO ''Encoding train inputs'' []) w in
      case (case data_loader ''BODY'' ''train'' of
              Inl e \<Rightarrow> (Inl e, w1)
            | Inr comments \<Rightarrow> encode_text L a comments w1) of
        (Inl e, w2) \<Rightarrow>
          (Inr encoded_training_inputs,
           emit (LogException e) (emit (Log ERROR ''Error while encoding train dataset'' []) w2))
      | (Inr m, w2) \<Rightarrow>
          (case np_save (encoded_train_inputs_path a) m w2 of
             (Inl e, w3) \<Rightarrow> (Inl e, w3)
           | (Inr u, w3) \<Rightarrow> (Inr (Array m), w3)))"

text \<open>The same block for the test set.\<close>

definition encode_test_block ::
  "lib \<Rightarrow> args \<Rightarrow> data_loader \<Rightarrow> inputs \<Rightarrow> world \<Rightarrow> (exn + inputs) \<times> world" where
  "encode_test_block L a data_loader encoded_test_inputs w =
     (let w1 = emit (Log INFO ''Encoding test inputs'' []) w in
      case (case data_loader ''BODY'' ''test'' of
              Inl e \<Rightarrow> (Inl e, w1)
            | Inr comments \<Rightarrow> encode_text L a comments w1) of
        (Inl e, w2) \<Rightarrow>
          (Inr encoded_test_inputs,
           emit (LogException e) (emit (Log ERROR ''Error while encoding test dataset'' []) w2))
      | (Inr m, w2) \<Rightarrow>
          (case np_save (encoded_test_inputs_path a) m w2 of
             (Inl e, w3) \<Rightarrow> (Inl e, w3)
           | (Inr u, w3) \<Rightarrow> (Inr (Array m), w3)))"

text \<open>
  The inputs: encoded where a cache file is missing, loaded when both are there. In the
  loading branch the result of \<^verbatim>\<open>load_encoded_inputs\<close> is unpacked into two variables,
  which raises \<^verbatim>\<open>TypeError\<close> on \<^verbatim>\<open>None\<close>.
\<close>

definition encode_or_load_inputs ::
  "lib \<Rightarrow> args \<Rightarrow> data_loader \<Rightarrow> world \<Rightarrow> (exn + inputs \<times> inputs) \<times> world" where
  "encode_or_load_inputs L a data_loader w =
     (let encoded_test_inputs = EmptyList;
          encoded_training_inputs = EmptyList
      in
      if \<not> os_path_exists (encoded_train_inputs_path a) w
         \<or> \<not> os_path_exists (encoded_test_inputs_path a) w
      then
        (case (if \<not> os_path_exists (encoded_train_inputs_path a) w
               then encode_train_block L a data_loader encoded_training_inputs w
               else (Inr encoded_training_inputs, w)) of
           (Inl e, w1) \<Rightarrow> (Inl e, w1)
         | (Inr encoded_training_inputs, w1) \<Rightarrow>
             (case (if \<not> os_path_exists (encoded_test_inputs_path a) w1
                    then encode_test_block L a data_loader encoded_test_inputs w1
                    else (Inr encoded_test_inputs, w1)) of
                (Inl e, w2) \<Rightarrow> (Inl e, w2)
              | (Inr encoded_test_inputs, w2) \<Rightarrow>
                  (Inr (encoded_training_inputs, encoded_test_inputs), w2)))
      else
        (let w1 = emit (Log INFO ''Loading train & test inputs from file'' []) w in
         case load_encoded_inputs (encoded_train_inputs_path a)
                (encoded_test_inputs_path a) w1 of
           (None, w2) \<Rightarrow>
             (Inl (TypeError ''cannot unpack non-iterable NoneType object''), w2)
         | (Some (encoded_training_inputs, encoded_test_inputs), w2) \<Rightarrow>
             (Inr (Array encoded_training_inputs, Array encoded_test_inputs), w2)))"

text \<open>The whole function: the inputs, then the two label vectors.\<close>

definition encode_or_load_data ::
  "lib \<Rightarrow> args \<Rightarrow> data_loader \<Rightarrow> world
   \<Rightarrow> (exn + (inputs \<times> ndarray) \<times> (inputs \<times> ndarray)) \<times> world" where
  "encode_or_load_data L a data_loader w =
     (case encode_or_load_inputs L a data_loader w of
        (Inl e, w1) \<Rightarrow> (Inl e, w1)
      | (Inr (encoded_training_inputs, encoded_test_inputs), w1) \<Rightarrow>
          (case data_loader ''REMOVED'' ''train'' of
             Inl e \<Rightarrow> (Inl e, w1)
           | Inr removed_train \<Rightarrow>
               (let train_outputs = np_array removed_train in
                case data_loader ''REMOVED'' ''test'' of
                  Inl e \<Rightarrow> (Inl e, w1)
                | Inr removed_test \<Rightarrow>
                    (let test_outputs = np_array removed_test in
                     (Inr ((encoded_training_inputs, train_outputs),
                           (encoded_test_inputs, test_outputs)), w1)))))"

section \<open>save_predictions\<close>

text \<open>
  \<^verbatim>\<open>frame[['BODY', 'REMOVED']]\<close>: the two columns, in that order, with the index of the
  frame; a missing column raises \<^verbatim>\<open>KeyError\<close>.
\<close>

definition select_columns :: "dataframe \<Rightarrow> string list \<Rightarrow> exn + dataframe" where
  "select_columns df names =
     (case filter (\<lambda>c. map_of (df_cols df) c = None) names of
        [] \<Rightarrow> Inr (df\<lparr>df_cols := map (\<lambda>c. (c, the (map_of (df_cols df) c))) names\<rparr>)
      | c # _ \<Rightarrow> Inl (KeyError c))"

text \<open>
  \<^verbatim>\<open>frame.iloc[i]\<close> builds a new series from row \<open>i\<close> (the columns hold strings and
  integers, so the row cannot be a view of the frame) and raises \<^verbatim>\<open>IndexError\<close> out
  of range.
\<close>

definition iloc :: "dataframe \<Rightarrow> nat \<Rightarrow> exn + series" where
  "iloc df i =
     (if i < length (df_index df)
      then Inr \<lparr>s_name = df_index df ! i, s_items = map (\<lambda>(c, vs). (c, vs ! i)) (df_cols df)\<rparr>
      else Inl (IndexError ''single positional indexer is out-of-bounds''))"

text \<open>\<^verbatim>\<open>series[key] = value\<close>: the entry is replaced, or added at the end.\<close>

definition series_setitem :: "series \<Rightarrow> string \<Rightarrow> scalar \<Rightarrow> series" where
  "series_setitem s key v = s\<lparr>s_items := AList.update key v (s_items s)\<rparr>"

text \<open>
  The statement \<^verbatim>\<open>pred.iloc[i]['Prediction'] = y_lbl\<close>: the value goes into the series
  that \<^verbatim>\<open>iloc\<close> has just built. The result is the frame, which the statement does not
  touch, and that temporary series, which nothing refers to afterwards.
\<close>

definition iloc_setitem ::
  "dataframe \<Rightarrow> nat \<Rightarrow> string \<Rightarrow> scalar \<Rightarrow> exn + dataframe \<times> series" where
  "iloc_setitem pred i key v =
     (case iloc pred i of
        Inl e \<Rightarrow> Inl e
      | Inr row \<Rightarrow> Inr (pred, series_setitem row key v))"

text \<open>The loop \<^verbatim>\<open>for i, y_lbl in enumerate(y_pred)\<close>, from index \<open>i\<close> on.\<close>

fun assign_predictions :: "dataframe \<Rightarrow> nat \<Rightarrow> scalar list \<Rightarrow> exn + dataframe" where
  "assign_predictions pred i [] = Inr pred"
| "assign_predictions pred i (y_lbl # rest) =
     (case iloc_setitem pred i ''Prediction'' y_lbl of
        Inl e \<Rightarrow> Inl e
      | Inr (pred', row) \<Rightarrow> assign_predictions pred' (Suc i) rest)"

text \<open>
  \<^verbatim>\<open>frame.to_csv(path, sep=sep, index=True, index_label=label)\<close>: the header is the
  label of the index and the column names; each row is the index entry and the cells.
\<close>

definition to_csv ::
  "dataframe \<Rightarrow> path \<Rightarrow> string \<Rightarrow> string \<Rightarrow> world \<Rightarrow> (exn + unit) \<times> world" where
  "to_csv df p sep index_label w =
     (let w1 = emit (ToCsv p) w in
      if writable w1 p
      then (Inr (),
            write_file p
              (TableFile sep (index_label # map fst (df_cols df))
                 (map (\<lambda>i. df_index df ! i # map (\<lambda>(c, vs). vs ! i) (df_cols df))
                    [0..<length (df_index df)])) w1)
      else (Inl (OSError p), w1))"

text \<open>
  \<^verbatim>\<open>y_pred\<close> is the vector of labels that \<^verbatim>\<open>clf.predict\<close> returned; \<^verbatim>\<open>enumerate\<close>
  runs over its elements. \<^verbatim>\<open>copy.deepcopy\<close> of a value is the value.
\<close>

definition save_predictions :: "lib \<Rightarrow> args \<Rightarrow> ndarray \<Rightarrow> world \<Rightarrow> (exn + unit) \<times> world" where
  "save_predictions L a y_pred w =
     (let w1 = emit (ReadCsv (test_file a)) w in
      case read_csv L (files w1) (test_file a) of
        Inl e \<Rightarrow> (Inl e, w1)
      | Inr frame \<Rightarrow>
          (case select_columns frame [''BODY'', ''REMOVED''] of
             Inl e \<Rightarrow> (Inl e, w1)
           | Inr gold \<Rightarrow>
               (let pred = gold in
                case assign_predictions pred 0 (elems y_pred) of
                  Inl e \<Rightarrow> (Inl e, w1)
                | Inr pred' \<Rightarrow> to_csv pred' (predictions_file a) [CHR 0x09] ''ID'' w1)))"

section \<open>roc_curve and eval_model\<close>

definition roc_curve :: "lib \<Rightarrow> ndarray \<Rightarrow> ndarray \<Rightarrow> world \<Rightarrow> (exn + unit) \<times> world" where
  "roc_curve L y_test y_score w =
     (let w1 = emit RocAucScore w in
      case roc_auc_score L y_test y_score of
        Inl e \<Rightarrow> (Inl e, w1)
      | Inr roc_score \<Rightarrow>
          (let w2 = emit (Log INFO ''ROC AUC score: {}'' [AFloat roc_score]) w1;
               w3 = emit RocCurves w2 in
           case roc_curves L y_test y_score of
             Some e \<Rightarrow> (Inl e, w3)
           | None \<Rightarrow> (Inr (), w3)))"

definition eval_model ::
  "lib \<Rightarrow> args \<Rightarrow> classifier \<Rightarrow> inputs \<Rightarrow> ndarray \<Rightarrow> string list \<Rightarrow> world
   \<Rightarrow> (exn + unit) \<times> world" where
  "eval_model L a clf x_test y_test target_names w =
     (let w1 = emit (Predict x_test) w in
      case clf_predict L clf x_test of
        Inl e \<Rightarrow> (Inl e, w1)
      | Inr y_pred \<Rightarrow>
          (let w2 = emit (Log DEBUG ''Predictions: {}'' [AShape (shape y_pred)]) w1;
               w3 = emit (Score x_test y_test) w2 in
           case clf_score L clf x_test y_test of
             Inl e \<Rightarrow> (Inl e, w3)
           | Inr score \<Rightarrow>
               (let w4 = emit (Log INFO ''Test score: {}'' [AFloat score]) w3;
                    w5 = emit (ClassificationReport y_test) w4 in
                case classification_report L y_test y_pred target_names of
                  Inl e \<Rightarrow> (Inl e, w5)
                | Inr report \<Rightarrow>
                    (let w6 = emit (Print report) w5;
                         w7 = emit (PredictProba x_test) w6 in
                     case clf_predict_proba L clf x_test of
                       Inl e \<Rightarrow> (Inl e, w7)
                     | Inr y_score \<Rightarrow>
                         (case roc_curve L y_test y_score w7 of
                            (Inl e, w8) \<Rightarrow> (Inl e, w8)
                          | (Inr u, w8) \<Rightarrow> save_predictions L a y_pred w8)))))"

section \<open>make_classifier_and_predict\<close>

text \<open>\<^verbatim>\<open>x.shape\<close>: an array has one, the list \<^verbatim>\<open>[]\<close> has no such attribute.\<close>

definition shape_of :: "inputs \<Rightarrow> exn + nat list" where
  "shape_of x =
     (case x of
        EmptyList \<Rightarrow> Inl (AttributeError ''shape'')
      | Array m \<Rightarrow> Inr (shape m))"

text \<open>
  The arguments of the three debug records are evaluated before \<^verbatim>\<open>logger.debug\<close> is
  called, whatever the log level. The variable \<^verbatim>\<open>clf\<close> is \<open>None\<close> as long as no
  branch has assigned it; \<^verbatim>\<open>clf.fit\<close> on the unassigned variable raises
  \<^verbatim>\<open>UnboundLocalError\<close>. \<^verbatim>\<open>fit\<close> changes the classifier in place.
\<close>

definition make_classifier_and_predict ::
  "lib \<Rightarrow> args \<Rightarrow> inputs \<times> ndarray \<Rightarrow> inputs \<times> ndarray \<Rightarrow> string list \<Rightarrow> int \<Rightarrow> string
   \<Rightarrow> world \<Rightarrow> (exn + classifier) \<times> world" where
  "make_classifier_and_predict L a train_set test_set target_names random_seed clf_name w =
     (let (x_train, y_train) = train_set;
          (x_test, y_test) = test_set
      in
      case shape_of x_train of
        Inl e \<Rightarrow> (Inl e, w)
      | Inr x_train_shape \<Rightarrow>
          (let w1 = emit (Log DEBUG ''x-train: {} | y-train: {}''
                            [AShape x_train_shape, AShape (shape y_train)]) w in
           case shape_of x_test of
             Inl e \<Rightarrow> (Inl e, w1)
           | Inr x_test_shape \<Rightarrow>
               (let w2 = emit (Log DEBUG ''x-test: {} | y-test: {}''
                                 [AShape x_test_shape, AShape (shape y_test)]) w1;
                    w3 = emit (Log DEBUG ''Target names: {}'' [ANames target_names]) w2;
                    clf = (if clf_name = ''randomforest''
                           then Some (RandomForestClassifier 100 1000 100 8 random_seed True)
                           else if clf_name = ''svc''
                           then Some (SVC ''auto'' random_seed True)
                           else if clf_name = ''mlp''
                           then Some (MLPClassifier [512, 128] ''relu'' True random_seed)
                           else None)
                in
                case clf of
                  None \<Rightarrow> (Inl (UnboundLocalError ''clf''), w3)
                | Some est \<Rightarrow>
                    (let w4 = emit (Fit est x_train y_train) w3 in
                     case clf_fit L est x_train y_train of
                       Some e \<Rightarrow> (Inl e, w4)
                     | None \<Rightarrow>
                         (let clf = \<lparr>params = est, fitted_on = Some (x_train, y_train)\<rparr> in
                          case save_model a clf w4 of
                            (Inl e, w5) \<Rightarrow> (Inl e, w5)
                          | (Inr u, w5) \<Rightarrow>
                              (case eval_model L a clf x_test y_test target_names w5 of
                                 (Inl e, w6) \<Rightarrow> (Inl e, w6)
                               | (Inr u', w6) \<Rightarrow> (Inr clf, w6)))))))"

section \<open>Reading the trace\<close>

fun is_encoding :: "event \<Rightarrow> bool" where
  "is_encoding (LaserEncode c p) = True"
| "is_encoding (LSIFitTransform n c) = True"
| "is_encoding e = False"

fun is_np_load :: "event \<Rightarrow> bool" where
  "is_np_load (NpLoad p) = True"
| "is_np_load e = False"

fun is_fit :: "event \<Rightarrow> bool" where
  "is_fit (Fit est x y) = True"
| "is_fit e = False"

text \<open>Log records and printed text, as opposed to the calls that do the work.\<close>

fun is_output :: "event \<Rightarrow> bool" where
  "is_output (Log l m xs) = True"
| "is_output (LogException e) = True"
| "is_output (Print s) = True"
| "is_output e = False"

definition calls :: "event list \<Rightarrow> event list" where
  "calls evs = filter (\<lambda>e. \<not> is_output e) evs"

text \<open>
  The order of the steps as the specification states it, (d) to (f): fit the selected
  classifier on the training set, save it, then evaluate: predict, score and report on
  the test set, the ROC metrics, and last read the gold file and persist the predictions.
\<close>

definition stated_evaluation :: "args \<Rightarrow> inputs \<Rightarrow> ndarray \<Rightarrow> event list" where
  "stated_evaluation a x_test y_test =
     [Predict x_test, Score x_test y_test, ClassificationReport y_test, PredictProba x_test,
      RocAucScore, RocCurves, ReadCsv (test_file a), ToCsv (predictions_file a)]"

definition stated_pipeline ::
  "args \<Rightarrow> estimator \<Rightarrow> inputs \<times> ndarray \<Rightarrow> inputs \<times> ndarray \<Rightarrow> event list" where
  "stated_pipeline a est train_set test_set =
     [Fit est (fst train_set) (snd train_set),
      JoblibDump (os_path_join (workdir a) (clf_save_name a @ ''_'' @ clf_type a @ ''.pkl''))]
     @ stated_evaluation a (fst test_set) (snd test_set)"

definition new_events :: "world \<Rightarrow> world \<Rightarrow> event list" where
  "new_events w w' = drop (length (trace w)) (trace w')"

section \<open>Concrete inputs\<close>

definition args0 :: args where
  "args0 = \<lparr>workdir = ''work'', clf_save_name = ''model'', clf_type = ''mlp'',
            encoder_type = ''LASER'', parallel = False,
            test_file = ''test.csv'', predictions_file = ''pred.tsv''\<rparr>"

definition empty_world :: world where
  "empty_world = \<lparr>files = Map.empty, writable = (\<lambda>p. True), trace = []\<rparr>"

definition clf0 :: classifier where
  "clf0 = \<lparr>params = SVC ''auto'' 7 True, fitted_on = None\<rparr>"

definition matrix0 :: ndarray where
  "matrix0 = NdArray [2, 2] [SFloat 0, SFloat 1, SFloat 1, SFloat 0]"

definition frame0 :: dataframe where
  "frame0 = \<lparr>df_index = [SInt 0, SInt 1],
             df_cols = [(''BODY'', [SStr ''first'', SStr ''second'']),
                        (''REMOVED'', [SInt 0, SInt 1]),
                        (''AUTHOR'', [SStr ''ann'', SStr ''bob''])]\<rparr>"

definition lib0 :: lib where
  "lib0 = \<lparr>laser_encode = (\<lambda>a c p. Inr (NdArray [length c, 1] (map (\<lambda>x. SFloat 0) c))),
           lsi_fit_transform = (\<lambda>n c. Inr (NdArray [length c, 1] (map (\<lambda>x. SFloat 1) c))),
           clf_fit = (\<lambda>est x y. None),
           clf_predict = (\<lambda>clf x. Inr (NdArray [2] [SInt 1, SInt 0])),
           clf_score = (\<lambda>clf x y. Inr 1),
           clf_predict_proba = (\<lambda>clf x. Inr matrix0),
           classification_report = (\<lambda>y y' names. Inr ''report''),
           roc_auc_score = (\<lambda>y s. Inr 1),
           roc_curves = (\<lambda>y s. None),
           read_csv = (\<lambda>fs p. if p = ''test.csv'' then Inr frame0 else Inl (FileNotFoundError p))\<rparr>"

definition loader0 :: data_loader where
  "loader0 column set_name =
     (if column = ''BODY'' then Inr [SStr ''first'', SStr ''second'']
      else if column = ''REMOVED'' then Inr [SInt 0, SInt 1]
      else Inl (KeyError column))"

definition cached_world :: world where
  "cached_world = \<lparr>files = [''work/training_LASER-comments.npy'' \<mapsto> NpyFile matrix0,
                             ''work/test_LASER-comments.npy'' \<mapsto> NpyFile matrix0],
                    writable = (\<lambda>p. True), trace = []\<rparr>"

definition broken_cache_world :: world where
  "broken_cache_world = \<lparr>files = [''work/training_LASER-comments.npy'' \<mapsto> OtherFile ''truncated'',
                             ''work/test_LASER-comments.npy'' \<mapsto> NpyFile matrix0],
                    writable = (\<lambda>p. True), trace = []\<rparr>"

definition lsi_args :: args where
  "lsi_args = args0\<lparr>encoder_type := ''LSI''\<rparr>"

definition other_args :: args where
  "other_args = args0\<lparr>encoder_type := ''BERT''\<rparr>"

definition narrow_train :: ndarray where
  "narrow_train = NdArray [2, 3] [SFloat 0, SFloat 0, SFloat 0, SFloat 1, SFloat 1, SFloat 1]"

definition narrow_test :: ndarray where
  "narrow_test = NdArray [1, 5] [SFloat 0, SFloat 0, SFloat 0, SFloat 0, SFloat 0]"

definition narrow_cache_world :: world where
  "narrow_cache_world = \<lparr>files = [''train.npy'' \<mapsto> NpyFile narrow_train,
                                     ''test.npy'' \<mapsto> NpyFile narrow_test],
                          writable = (\<lambda>p. True), trace = []\<rparr>"

definition failing_lib :: lib where
  "failing_lib = lib0\<lparr>laser_encode := (\<lambda>a c p. Inl (OtherException ''LASER model not found''))\<rparr>"

definition train_only_world :: world where
  "train_only_world = \<lparr>files = [''work/training_LASER-comments.npy'' \<mapsto> NpyFile matrix0],
                        writable = (\<lambda>p. True), trace = []\<rparr>"

definition test_only_world :: world where
  "test_only_world = \<lparr>files = [''work/test_LASER-comments.npy'' \<mapsto> NpyFile matrix0],
                       writable = (\<lambda>p. True), trace = []\<rparr>"

definition train0 :: "inputs \<times> ndarray" where
  "train0 = (Array matrix0, np_array [SInt 0, SInt 1])"

definition test0 :: "inputs \<times> ndarray" where
  "test0 = (Array matrix0, np_array [SInt 1, SInt 0])"

definition fitted0 :: "estimator \<Rightarrow> classifier" where
  "fitted0 est = \<lparr>params = est, fitted_on = Some train0\<rparr>"

section \<open>Properties\<close>

subsection \<open>Effects of the building blocks\<close>

lemma trace_emit [simp]: "trace (emit e w) = trace w @ [e]"
  and files_emit [simp]: "files (emit e w) = files w"
  and writable_emit [simp]: "writable (emit e w) = writable w"
  by (simp_all add: emit_def)

lemma trace_write_file [simp]: "trace (write_file p f w) = trace w"
  and files_write_file [simp]: "files (write_file p f w) = (files w)(p \<mapsto> f)"
  and writable_write_file [simp]: "writable (write_file p f w) = writable w"
  by (simp_all add: write_file_def)

lemma exists_emit [simp]: "os_path_exists p (emit e w) = os_path_exists p w"
  by (simp add: os_path_exists_def)

lemma paths_differ: "encoded_train_inputs_path a \<noteq> encoded_test_inputs_path a"
  by (simp add: encoded_train_inputs_path_def encoded_test_inputs_path_def os_path_join_def)

lemma encode_text_world:
  "\<exists>evs. trace (snd (encode_text L a c w)) = trace w @ evs
     \<and> (\<forall>e\<in>set evs. is_output e \<or> e = LaserEncode c (parallel a) \<or> e = LSIFitTransform 10000 c)
     \<and> files (snd (encode_text L a c w)) = files w
     \<and> writable (snd (encode_text L a c w)) = writable w"
  by (auto simp: encode_text_def split: sum.splits)

lemma encode_text_raises:
  "fst (encode_text L a c w) = Inl e \<Longrightarrow>
   \<exists>evs. trace (snd (encode_text L a c w)) = trace w @ evs @ [Log ERROR ''Error while encoding inputs!'' []]"
  by (auto simp: encode_text_def split: sum.splits if_splits)

lemma np_save_world:
  "trace (snd (np_save p m w)) = trace w @ [NpSave p m]"
  "writable (snd (np_save p m w)) = writable w"
  "q \<noteq> p \<Longrightarrow> files (snd (np_save p m w)) q = files w q"
  "fst (np_save p m w) = Inr u \<Longrightarrow> files (snd (np_save p m w)) = (files w)(p \<mapsto> NpyFile m)"
  "writable w p \<Longrightarrow> fst (np_save p m w) = Inr ()"
  "fst (np_save p m w) = Inl e \<Longrightarrow> files (snd (np_save p m w)) = files w"
  by (simp_all add: np_save_def Let_def split: if_splits)

lemma encode_train_block_world:
  "\<exists>evs. trace (snd (encode_train_block L a dl x w)) = trace w @ evs
     \<and> (\<forall>e\<in>set evs. is_output e
           \<or> (\<exists>c. dl ''BODY'' ''train'' = Inr c
                  \<and> (e = LaserEncode c (parallel a) \<or> e = LSIFitTransform 10000 c))
           \<or> (\<exists>m. e = NpSave (encoded_train_inputs_path a) m))
     \<and> writable (snd (encode_train_block L a dl x w)) = writable w
     \<and> (\<forall>q. q \<noteq> encoded_train_inputs_path a \<longrightarrow>
            files (snd (encode_train_block L a dl x w)) q = files w q)"
proof (cases "dl ''BODY'' ''train''")
  case (Inl e)
  then show ?thesis by (simp add: encode_train_block_def Let_def)
next
  case (Inr c)
  let ?w1 = "emit (Log INFO ''Encoding train inputs'' []) w"
  obtain evs where evs: "trace (snd (encode_text L a c ?w1)) = trace ?w1 @ evs"
    "\<forall>e\<in>set evs. is_output e \<or> e = LaserEncode c (parallel a) \<or> e = LSIFitTransform 10000 c"
    "files (snd (encode_text L a c ?w1)) = files ?w1"
    "writable (snd (encode_text L a c ?w1)) = writable ?w1"
    using encode_text_world [of L a c ?w1] by blast
  obtain r w2 where r: "encode_text L a c ?w1 = (r, w2)" by (cases "encode_text L a c ?w1")
  show ?thesis
  proof (cases r)
    case (Inl e)
    have "\<forall>ev\<in>set evs. is_output ev
           \<or> (\<exists>c. dl ''BODY'' ''train'' = Inr c
                  \<and> (ev = LaserEncode c (parallel a) \<or> ev = LSIFitTransform 10000 c))
           \<or> (\<exists>m. ev = NpSave (encoded_train_inputs_path a) m)"
      using evs(2) Inr by blast
    with Inl Inr r evs(1,3,4) show ?thesis
      by (simp add: encode_train_block_def Let_def)
  next
    case m: (Inr m)
    obtain r' w3 where s: "np_save (encoded_train_inputs_path a) m w2 = (r', w3)"
      by (cases "np_save (encoded_train_inputs_path a) m w2")
    have w3: "trace w3 = trace w2 @ [NpSave (encoded_train_inputs_path a) m]"
      "writable w3 = writable w2"
      "\<And>q. q \<noteq> encoded_train_inputs_path a \<Longrightarrow> files w3 q = files w2 q"
      using np_save_world(1,2) [of "encoded_train_inputs_path a" m w2]
        np_save_world(3) [of _ "encoded_train_inputs_path a" m w2] s by simp_all
    have "snd (encode_train_block L a dl x w) = w3"
      using Inr r m s by (simp add: encode_train_block_def Let_def split: sum.splits)
    moreover have "\<forall>ev\<in>set evs. is_output ev
           \<or> (\<exists>c. dl ''BODY'' ''train'' = Inr c
                  \<and> (ev = LaserEncode c (parallel a) \<or> ev = LSIFitTransform 10000 c))
           \<or> (\<exists>m. ev = NpSave (encoded_train_inputs_path a) m)"
      using evs(2) Inr by blast
    ultimately show ?thesis
      using w3 evs(1,3,4) r
      by simp
  qed
qed

lemma encode_train_block_caught:
  assumes "dl ''BODY'' ''train'' = Inl e
     \<or> (\<exists>c. dl ''BODY'' ''train'' = Inr c
            \<and> fst (encode_text L a c (emit (Log INFO ''Encoding train inputs'' []) w)) = Inl e)"
  shows "fst (encode_train_block L a dl x w) = Inr x"
    and "files (snd (encode_train_block L a dl x w)) = files w"
    and "\<exists>evs. trace (snd (encode_train_block L a dl x w)) =
            trace w @ evs @ [Log ERROR ''Error while encoding train dataset'' [], LogException e]"
proof -
  let ?w1 = "emit (Log INFO ''Encoding train inputs'' []) w"
  from assms consider (a) "dl ''BODY'' ''train'' = Inl e"
    | (b) c w2 where "dl ''BODY'' ''train'' = Inr c" "encode_text L a c ?w1 = (Inl e, w2)"
    by (metis prod.collapse)
  then have "fst (encode_train_block L a dl x w) = Inr x
    \<and> files (snd (encode_train_block L a dl x w)) = files w
    \<and> (\<exists>evs. trace (snd (encode_train_block L a dl x w)) =
            trace w @ evs @ [Log ERROR ''Error while encoding train dataset'' [], LogException e])"
  proof cases
    case a
    then show ?thesis
      by (simp add: encode_train_block_def Let_def)
  next
    case b
    obtain evs where "trace w2 = trace ?w1 @ evs" "files w2 = files ?w1"
      using encode_text_world [of L a c ?w1] b(2) by auto
    with b show ?thesis
      by (simp add: encode_train_block_def Let_def)
  qed
  then show "fst (encode_train_block L a dl x w) = Inr x"
    and "files (snd (encode_train_block L a dl x w)) = files w"
    and "\<exists>evs. trace (snd (encode_train_block L a dl x w)) =
            trace w @ evs @ [Log ERROR ''Error while encoding train dataset'' [], LogException e]"
    by blast+
qed

lemma encode_train_block_saved:
  assumes "dl ''BODY'' ''train'' = Inr c"
    and "fst (encode_text L a c (emit (Log INFO ''Encoding train inputs'' []) w)) = Inr m"
    and "writable w (encoded_train_inputs_path a)"
  shows "fst (encode_train_block L a dl x w) = Inr (Array m)"
    and "files (snd (encode_train_block L a dl x w)) =
           (files w)(encoded_train_inputs_path a \<mapsto> NpyFile m)"
proof -
  let ?w1 = "emit (Log INFO ''Encoding train inputs'' []) w"
  obtain w2 where r: "encode_text L a c ?w1 = (Inr m, w2)"
    using assms(2) by (cases "encode_text L a c ?w1") simp
  have w2: "files w2 = files w" "writable w2 = writable w"
    using encode_text_world [of L a c ?w1] r by auto
  show "fst (encode_train_block L a dl x w) = Inr (Array m)"
    and "files (snd (encode_train_block L a dl x w)) =
           (files w)(encoded_train_inputs_path a \<mapsto> NpyFile m)"
    using assms(1,3) r w2
    by (simp_all add: encode_train_block_def np_save_def Let_def)
qed

lemma encode_train_block_result:
  "fst (encode_train_block L a dl x w) = Inr y \<Longrightarrow> y = x \<or> (\<exists>m. y = Array m)"
  by (auto simp: encode_train_block_def Let_def split: sum.splits prod.splits)

lemma encode_test_block_world:
  "\<exists>evs. trace (snd (encode_test_block L a dl x w)) = trace w @ evs
     \<and> (\<forall>e\<in>set evs. is_output e
           \<or> (\<exists>c. dl ''BODY'' ''test'' = Inr c
                  \<and> (e = LaserEncode c (parallel a) \<or> e = LSIFitTransform 10000 c))
           \<or> (\<exists>m. e = NpSave (encoded_test_inputs_path a) m))
     \<and> writable (snd (encode_test_block L a dl x w)) = writable w
     \<and> (\<forall>q. q \<noteq> encoded_test_inputs_path a \<longrightarrow>
            files (snd (encode_test_block L a dl x w)) q = files w q)"
proof (cases "dl ''BODY'' ''test''")
  case (Inl e)
  then show ?thesis by (simp add: encode_test_block_def Let_def)
next
  case (Inr c)
  let ?w1 = "emit (Log INFO ''Encoding test inputs'' []) w"
  obtain evs where evs: "trace (snd (encode_text L a c ?w1)) = trace ?w1 @ evs"
    "\<forall>e\<in>set evs. is_output e \<or> e = LaserEncode c (parallel a) \<or> e = LSIFitTransform 10000 c"
    "files (snd (encode_text L a c ?w1)) = files ?w1"
    "writable (snd (encode_text L a c ?w1)) = writable ?w1"
    using encode_text_world [of L a c ?w1] by blast
  obtain r w2 where r: "encode_text L a c ?w1 = (r, w2)" by (cases "encode_text L a c ?w1")
  show ?thesis
  proof (cases r)
    case (Inl e)
    have "\<forall>ev\<in>set evs. is_output ev
           \<or> (\<exists>c. dl ''BODY'' ''test'' = Inr c
                  \<and> (ev = LaserEncode c (parallel a) \<or> ev = LSIFitTransform 10000 c))
           \<or> (\<exists>m. ev = NpSave (encoded_test_inputs_path a) m)"
      using evs(2) Inr by blast
    with Inl Inr r evs(1,3,4) show ?thesis
      by (simp add: encode_test_block_def Let_def)
  next
    case m: (Inr m)
    obtain r' w3 where s: "np_save (encoded_test_inputs_path a) m w2 = (r', w3)"
      by (cases "np_save (encoded_test_inputs_path a) m w2")
    have w3: "trace w3 = trace w2 @ [NpSave (encoded_test_inputs_path a) m]"
      "writable w3 = writable w2"
      "\<And>q. q \<noteq> encoded_test_inputs_path a \<Longrightarrow> files w3 q = files w2 q"
      using np_save_world(1,2) [of "encoded_test_inputs_path a" m w2]
        np_save_world(3) [of _ "encoded_test_inputs_path a" m w2] s by simp_all
    have "snd (encode_test_block L a dl x w) = w3"
      using Inr r m s by (simp add: encode_test_block_def Let_def split: sum.splits)
    moreover have "\<forall>ev\<in>set evs. is_output ev
           \<or> (\<exists>c. dl ''BODY'' ''test'' = Inr c
                  \<and> (ev = LaserEncode c (parallel a) \<or> ev = LSIFitTransform 10000 c))
           \<or> (\<exists>m. ev = NpSave (encoded_test_inputs_path a) m)"
      using evs(2) Inr by blast
    ultimately show ?thesis
      using w3 evs(1,3,4) r
      by simp
  qed
qed

lemma encode_test_block_caught:
  assumes "dl ''BODY'' ''test'' = Inl e
     \<or> (\<exists>c. dl ''BODY'' ''test'' = Inr c
            \<and> fst (encode_text L a c (emit (Log INFO ''Encoding test inputs'' []) w)) = Inl e)"
  shows "fst (encode_test_block L a dl x w) = Inr x"
    and "files (snd (encode_test_block L a dl x w)) = files w"
    and "\<exists>evs. trace (snd (encode_test_block L a dl x w)) =
            trace w @ evs @ [Log ERROR ''Error while encoding test dataset'' [], LogException e]"
proof -
  let ?w1 = "emit (Log INFO ''Encoding test inputs'' []) w"
  from assms consider (a) "dl ''BODY'' ''test'' = Inl e"
    | (b) c w2 where "dl ''BODY'' ''test'' = Inr c" "encode_text L a c ?w1 = (Inl e, w2)"
    by (metis prod.collapse)
  then have "fst (encode_test_block L a dl x w) = Inr x
    \<and> files (snd (encode_test_block L a dl x w)) = files w
    \<and> (\<exists>evs. trace (snd (encode_test_block L a dl x w)) =
            trace w @ evs @ [Log ERROR ''Error while encoding test dataset'' [], LogException e])"
  proof cases
    case a
    then show ?thesis
      by (simp add: encode_test_block_def Let_def)
  next
    case b
    obtain evs where "trace w2 = trace ?w1 @ evs" "files w2 = files ?w1"
      using encode_text_world [of L a c ?w1] b(2) by auto
    with b show ?thesis
      by (simp add: encode_test_block_def Let_def)
  qed
  then show "fst (encode_test_block L a dl x w) = Inr x"
    and "files (snd (encode_test_block L a dl x w)) = files w"
    and "\<exists>evs. trace (snd (encode_test_block L a dl x w)) =
            trace w @ evs @ [Log ERROR ''Error while encoding test dataset'' [], LogException e]"
    by blast+
qed

lemma encode_test_block_saved:
  assumes "dl ''BODY'' ''test'' = Inr c"
    and "fst (encode_text L a c (emit (Log INFO ''Encoding test inputs'' []) w)) = Inr m"
    and "writable w (encoded_test_inputs_path a)"
  shows "fst (encode_test_block L a dl x w) = Inr (Array m)"
    and "files (snd (encode_test_block L a dl x w)) =
           (files w)(encoded_test_inputs_path a \<mapsto> NpyFile m)"
proof -
  let ?w1 = "emit (Log INFO ''Encoding test inputs'' []) w"
  obtain w2 where r: "encode_text L a c ?w1 = (Inr m, w2)"
    using assms(2) by (cases "encode_text L a c ?w1") simp
  have w2: "files w2 = files w" "writable w2 = writable w"
    using encode_text_world [of L a c ?w1] r by auto
  show "fst (encode_test_block L a dl x w) = Inr (Array m)"
    and "files (snd (encode_test_block L a dl x w)) =
           (files w)(encoded_test_inputs_path a \<mapsto> NpyFile m)"
    using assms(1,3) r w2
    by (simp_all add: encode_test_block_def np_save_def Let_def)
qed

lemma encode_test_block_result:
  "fst (encode_test_block L a dl x w) = Inr y \<Longrightarrow> y = x \<or> (\<exists>m. y = Array m)"
  by (auto simp: encode_test_block_def Let_def split: sum.splits prod.splits)


lemma encode_text_result_indep: "fst (encode_text L a c w) = fst (encode_text L a c w')"
  by (simp add: encode_text_def split: sum.splits)

lemma new_events_append [simp]: "trace w' = trace w @ evs \<Longrightarrow> new_events w w' = evs"
  by (simp add: new_events_def)

lemma args0_paths:
  "encoded_train_inputs_path args0 = ''work/training_LASER-comments.npy''"
  "encoded_test_inputs_path args0 = ''work/test_LASER-comments.npy''"
  by (simp_all add: encoded_train_inputs_path_def encoded_test_inputs_path_def
      os_path_join_def args0_def)

lemma output_not_encoding: "is_output e \<Longrightarrow> \<not> is_encoding e"
  and output_not_np_load: "is_output e \<Longrightarrow> \<not> is_np_load e"
  by (cases e; simp)+

lemma load_encoded_inputs_world:
  "\<exists>evs. trace (snd (load_encoded_inputs p q w)) = trace w @ evs
     \<and> (\<forall>e\<in>set evs. is_output e \<or> e = NpLoad p \<or> e = NpLoad q)"
  "files (snd (load_encoded_inputs p q w)) = files w"
  by (auto simp: load_encoded_inputs_def np_load_def Let_def
      split: option.splits file_content.splits)

lemma load_encoded_inputs_iff:
  "fst (load_encoded_inputs p q w) = Some (tr, te)
     \<longleftrightarrow> files w p = Some (NpyFile tr) \<and> files w q = Some (NpyFile te)"
  by (auto simp: load_encoded_inputs_def np_load_def Let_def
      split: option.splits file_content.splits)

lemma inputs_when_cached:
  assumes "os_path_exists (encoded_train_inputs_path a) w"
    and "os_path_exists (encoded_test_inputs_path a) w"
  shows "encode_or_load_inputs L a dl w =
     (case load_encoded_inputs (encoded_train_inputs_path a) (encoded_test_inputs_path a)
             (emit (Log INFO ''Loading train & test inputs from file'' []) w) of
        (None, w2) \<Rightarrow> (Inl (TypeError ''cannot unpack non-iterable NoneType object''), w2)
      | (Some (tr, te), w2) \<Rightarrow> (Inr (Array tr, Array te), w2))"
  using assms by (simp add: encode_or_load_inputs_def Let_def)

lemma data_world: "snd (encode_or_load_data L a dl w) = snd (encode_or_load_inputs L a dl w)"
  by (simp add: encode_or_load_data_def Let_def split: prod.splits sum.splits)

lemma data_inputs:
  "fst (encode_or_load_data L a dl w) = Inr ((x, y), (x', y')) \<Longrightarrow>
   fst (encode_or_load_inputs L a dl w) = Inr (x, x')"
  by (auto simp: encode_or_load_data_def Let_def split: prod.splits sum.splits)

lemma data_returns:
  "fst (encode_or_load_inputs L a dl w) = Inr (x, x') \<Longrightarrow>
   dl ''REMOVED'' ''train'' = Inr ytr \<Longrightarrow> dl ''REMOVED'' ''test'' = Inr yte \<Longrightarrow>
   fst (encode_or_load_data L a dl w) = Inr ((x, np_array ytr), (x', np_array yte))"
  by (auto simp: encode_or_load_data_def Let_def split: prod.splits sum.splits)

lemma inputs_only_test_missing:
  assumes "os_path_exists (encoded_train_inputs_path a) w"
    and "\<not> os_path_exists (encoded_test_inputs_path a) w"
  shows "encode_or_load_inputs L a dl w =
     (case encode_test_block L a dl EmptyList w of
        (Inl e, w2) \<Rightarrow> (Inl e, w2)
      | (Inr te, w2) \<Rightarrow> (Inr (EmptyList, te), w2))"
  using assms by (simp add: encode_or_load_inputs_def Let_def)

lemma train_block_keeps_test_file:
  "os_path_exists (encoded_test_inputs_path a) (snd (encode_train_block L a dl x w))
     = os_path_exists (encoded_test_inputs_path a) w"
  using encode_train_block_world [of L a dl x w] paths_differ [of a]
  by (simp add: os_path_exists_def) metis

lemma inputs_only_train_missing:
  assumes "\<not> os_path_exists (encoded_train_inputs_path a) w"
    and "os_path_exists (encoded_test_inputs_path a) w"
  shows "encode_or_load_inputs L a dl w =
     (case encode_train_block L a dl EmptyList w of
        (Inl e, w1) \<Rightarrow> (Inl e, w1)
      | (Inr tr, w1) \<Rightarrow> (Inr (tr, EmptyList), w1))"
proof -
  obtain r w1 where b: "encode_train_block L a dl EmptyList w = (r, w1)"
    by (cases "encode_train_block L a dl EmptyList w")
  have "os_path_exists (encoded_test_inputs_path a) w1"
    using train_block_keeps_test_file [of a L dl EmptyList w] b assms(2) by simp
  then show ?thesis
    using assms b by (simp add: encode_or_load_inputs_def Let_def split: sum.splits)
qed

lemma inputs_both_missing:
  assumes "\<not> os_path_exists (encoded_train_inputs_path a) w"
    and "\<not> os_path_exists (encoded_test_inputs_path a) w"
  shows "encode_or_load_inputs L a dl w =
     (case encode_train_block L a dl EmptyList w of
        (Inl e, w1) \<Rightarrow> (Inl e, w1)
      | (Inr tr, w1) \<Rightarrow>
          (case encode_test_block L a dl EmptyList w1 of
             (Inl e, w2) \<Rightarrow> (Inl e, w2)
           | (Inr te, w2) \<Rightarrow> (Inr (tr, te), w2)))"
proof -
  obtain r w1 where b: "encode_train_block L a dl EmptyList w = (r, w1)"
    by (cases "encode_train_block L a dl EmptyList w")
  have "\<not> os_path_exists (encoded_test_inputs_path a) w1"
    using train_block_keeps_test_file [of a L dl EmptyList w] b assms(2) by simp
  then show ?thesis
    using assms b by (simp add: encode_or_load_inputs_def Let_def split: sum.splits)
qed

lemma only_test_missing:
  assumes ex: "os_path_exists (encoded_train_inputs_path a) w"
    "\<not> os_path_exists (encoded_test_inputs_path a) w"
    and R: "encode_or_load_data L a dl w = (r, w')"
  shows "(\<forall>ev\<in>set (new_events w w').
            \<not> is_np_load ev \<and> (\<forall>m. ev \<noteq> NpSave (encoded_train_inputs_path a) m)
            \<and> (is_encoding ev \<longrightarrow>
                 (\<exists>c. dl ''BODY'' ''test'' = Inr c
                    \<and> (ev = LaserEncode c (parallel a) \<or> ev = LSIFitTransform 10000 c))))
       \<and> files w' (encoded_train_inputs_path a) = files w (encoded_train_inputs_path a)
       \<and> (\<forall>x y z. r = Inr ((x, y), z) \<longrightarrow> x = EmptyList)
       \<and> (\<forall>c m ytr yte.
             dl ''BODY'' ''test'' = Inr c \<and> fst (encode_text L a c w) = Inr m
             \<and> writable w (encoded_test_inputs_path a)
             \<and> dl ''REMOVED'' ''train'' = Inr ytr \<and> dl ''REMOVED'' ''test'' = Inr yte \<longrightarrow>
             r = Inr ((EmptyList, np_array ytr), (Array m, np_array yte))
             \<and> files w' = (files w)(encoded_test_inputs_path a \<mapsto> NpyFile m))"
proof -
  let ?b = "encode_test_block L a dl EmptyList w"
  note inp = inputs_only_test_missing [OF ex, of L dl]
  have w': "w' = snd ?b"
    using R data_world [of L a dl w] by (simp add: inp split: prod.splits sum.splits)
  obtain evs where evs: "trace w' = trace w @ evs"
    "\<forall>e\<in>set evs. is_output e
        \<or> (\<exists>c. dl ''BODY'' ''test'' = Inr c
               \<and> (e = LaserEncode c (parallel a) \<or> e = LSIFitTransform 10000 c))
        \<or> (\<exists>m. e = NpSave (encoded_test_inputs_path a) m)"
    and fs: "\<forall>q. q \<noteq> encoded_test_inputs_path a \<longrightarrow> files w' q = files w q"
    unfolding w' using encode_test_block_world [of L a dl EmptyList w] by blast
  have n: "new_events w w' = evs" using evs(1) by simp
  have 1: "\<forall>ev\<in>set (new_events w w').
            \<not> is_np_load ev \<and> (\<forall>m. ev \<noteq> NpSave (encoded_train_inputs_path a) m)
            \<and> (is_encoding ev \<longrightarrow>
                 (\<exists>c. dl ''BODY'' ''test'' = Inr c
                    \<and> (ev = LaserEncode c (parallel a) \<or> ev = LSIFitTransform 10000 c)))"
    unfolding n
  proof
    fix ev assume "ev \<in> set evs"
    with evs(2) consider "is_output ev"
      | c where "dl ''BODY'' ''test'' = Inr c"
          "ev = LaserEncode c (parallel a) \<or> ev = LSIFitTransform 10000 c"
      | m where "ev = NpSave (encoded_test_inputs_path a) m"
      by blast
    then show "\<not> is_np_load ev \<and> (\<forall>m. ev \<noteq> NpSave (encoded_train_inputs_path a) m)
            \<and> (is_encoding ev \<longrightarrow>
                 (\<exists>c. dl ''BODY'' ''test'' = Inr c
                    \<and> (ev = LaserEncode c (parallel a) \<or> ev = LSIFitTransform 10000 c)))"
    proof cases
      case 1
      then show ?thesis by (cases ev) simp_all
    next
      case 2
      then show ?thesis by auto
    next
      case 3
      then show ?thesis using paths_differ [of a] by auto
    qed
  qed
  have 2: "files w' (encoded_train_inputs_path a) = files w (encoded_train_inputs_path a)"
    using fs paths_differ [of a] by simp
  have 3: "\<forall>x y z. r = Inr ((x, y), z) \<longrightarrow> x = EmptyList"
  proof (intro allI impI)
    fix x y z assume "r = Inr ((x, y), z)"
    then have "fst (encode_or_load_inputs L a dl w) = Inr (x, fst z)"
      using R data_inputs [of L a dl w x y "fst z" "snd z"] by simp
    then show "x = EmptyList"
      by (auto simp: inp split: prod.splits sum.splits)
  qed
  have 4: "r = Inr ((EmptyList, np_array ytr), (Array m, np_array yte))
             \<and> files w' = (files w)(encoded_test_inputs_path a \<mapsto> NpyFile m)"
    if h: "dl ''BODY'' ''test'' = Inr c" "fst (encode_text L a c w) = Inr m"
      "writable w (encoded_test_inputs_path a)"
      "dl ''REMOVED'' ''train'' = Inr ytr" "dl ''REMOVED'' ''test'' = Inr yte"
    for c m ytr yte
  proof -
    have e: "fst (encode_text L a c (emit (Log INFO ''Encoding test inputs'' []) w)) = Inr m"
      using h(2) encode_text_result_indep [of L a c w] by simp
    note sv = encode_test_block_saved [where dl=dl and c=c and L=L and a=a and w=w and m=m
        and x=EmptyList, OF h(1) e h(3)]
    have "fst (encode_or_load_inputs L a dl w) = Inr (EmptyList, Array m)"
      using sv(1) by (auto simp: inp split: prod.splits sum.splits)
    then have "fst (encode_or_load_data L a dl w) =
        Inr ((EmptyList, np_array ytr), (Array m, np_array yte))"
      using h(4,5) by (rule data_returns)
    then show ?thesis using R sv(2) w' by simp
  qed
  show ?thesis using 1 2 3 4 by blast
qed

lemma only_train_missing:
  assumes ex: "\<not> os_path_exists (encoded_train_inputs_path a) w"
    "os_path_exists (encoded_test_inputs_path a) w"
    and R: "encode_or_load_data L a dl w = (r, w')"
  shows "(\<forall>ev\<in>set (new_events w w').
            \<not> is_np_load ev \<and> (\<forall>m. ev \<noteq> NpSave (encoded_test_inputs_path a) m)
            \<and> (is_encoding ev \<longrightarrow>
                 (\<exists>c. dl ''BODY'' ''train'' = Inr c
                    \<and> (ev = LaserEncode c (parallel a) \<or> ev = LSIFitTransform 10000 c))))
       \<and> files w' (encoded_test_inputs_path a) = files w (encoded_test_inputs_path a)
       \<and> (\<forall>x y z. r = Inr (z, (x, y)) \<longrightarrow> x = EmptyList)
       \<and> (\<forall>c m ytr yte.
             dl ''BODY'' ''train'' = Inr c \<and> fst (encode_text L a c w) = Inr m
             \<and> writable w (encoded_train_inputs_path a)
             \<and> dl ''REMOVED'' ''train'' = Inr ytr \<and> dl ''REMOVED'' ''test'' = Inr yte \<longrightarrow>
             r = Inr ((Array m, np_array ytr), (EmptyList, np_array yte))
             \<and> files w' = (files w)(encoded_train_inputs_path a \<mapsto> NpyFile m))"
proof -
  let ?b = "encode_train_block L a dl EmptyList w"
  note inp = inputs_only_train_missing [OF ex, of L dl]
  have w': "w' = snd ?b"
    using R data_world [of L a dl w] by (simp add: inp split: prod.splits sum.splits)
  obtain evs where evs: "trace w' = trace w @ evs"
    "\<forall>e\<in>set evs. is_output e
        \<or> (\<exists>c. dl ''BODY'' ''train'' = Inr c
               \<and> (e = LaserEncode c (parallel a) \<or> e = LSIFitTransform 10000 c))
        \<or> (\<exists>m. e = NpSave (encoded_train_inputs_path a) m)"
    and fs: "\<forall>q. q \<noteq> encoded_train_inputs_path a \<longrightarrow> files w' q = files w q"
    unfolding w' using encode_train_block_world [of L a dl EmptyList w] by blast
  have n: "new_events w w' = evs" using evs(1) by simp
  have 1: "\<forall>ev\<in>set (new_events w w').
            \<not> is_np_load ev \<and> (\<forall>m. ev \<noteq> NpSave (encoded_test_inputs_path a) m)
            \<and> (is_encoding ev \<longrightarrow>
                 (\<exists>c. dl ''BODY'' ''train'' = Inr c
                    \<and> (ev = LaserEncode c (parallel a) \<or> ev = LSIFitTransform 10000 c)))"
    unfolding n
  proof
    fix ev assume "ev \<in> set evs"
    with evs(2) consider "is_output ev"
      | c where "dl ''BODY'' ''train'' = Inr c"
          "ev = LaserEncode c (parallel a) \<or> ev = LSIFitTransform 10000 c"
      | m where "ev = NpSave (encoded_train_inputs_path a) m"
      by blast
    then show "\<not> is_np_load ev \<and> (\<forall>m. ev \<noteq> NpSave (encoded_test_inputs_path a) m)
            \<and> (is_encoding ev \<longrightarrow>
                 (\<exists>c. dl ''BODY'' ''train'' = Inr c
                    \<and> (ev = LaserEncode c (parallel a) \<or> ev = LSIFitTransform 10000 c)))"
    proof cases
      case 1
      then show ?thesis by (cases ev) simp_all
    next
      case 2
      then show ?thesis by auto
    next
      case 3
      then show ?thesis using paths_differ [of a] by auto
    qed
  qed
  have 2: "files w' (encoded_test_inputs_path a) = files w (encoded_test_inputs_path a)"
    using fs paths_differ [of a] by (simp add: not_sym)
  have 3: "\<forall>x y z. r = Inr (z, (x, y)) \<longrightarrow> x = EmptyList"
  proof (intro allI impI)
    fix x y z assume "r = Inr (z, (x, y))"
    then have "fst (encode_or_load_inputs L a dl w) = Inr (fst z, x)"
      using R data_inputs [of L a dl w "fst z" "snd z" x y] by simp
    then show "x = EmptyList"
      by (auto simp: inp split: prod.splits sum.splits)
  qed
  have 4: "r = Inr ((Array m, np_array ytr), (EmptyList, np_array yte))
             \<and> files w' = (files w)(encoded_train_inputs_path a \<mapsto> NpyFile m)"
    if h: "dl ''BODY'' ''train'' = Inr c" "fst (encode_text L a c w) = Inr m"
      "writable w (encoded_train_inputs_path a)"
      "dl ''REMOVED'' ''train'' = Inr ytr" "dl ''REMOVED'' ''test'' = Inr yte"
    for c m ytr yte
  proof -
    have e: "fst (encode_text L a c (emit (Log INFO ''Encoding train inputs'' []) w)) = Inr m"
      using h(2) encode_text_result_indep [of L a c w] by simp
    note sv = encode_train_block_saved [where dl=dl and c=c and L=L and a=a and w=w and m=m
        and x=EmptyList, OF h(1) e h(3)]
    have "fst (encode_or_load_inputs L a dl w) = Inr (Array m, EmptyList)"
      using sv(1) by (auto simp: inp split: prod.splits sum.splits)
    then have "fst (encode_or_load_data L a dl w) =
        Inr ((Array m, np_array ytr), (EmptyList, np_array yte))"
      using h(4,5) by (rule data_returns)
    then show ?thesis using R sv(2) w' by simp
  qed
  show ?thesis using 1 2 3 4 by blast
qed

lemma encode_text_reraises:
  assumes "encoder_type a = ''LASER'' \<and> laser_encode L a c (parallel a) = Inl e
     \<or> encoder_type a = ''LSI'' \<and> lsi_fit_transform L 10000 c = Inl e"
  shows "fst (encode_text L a c w) = Inl e
     \<and> (\<exists>call. is_encoding call
           \<and> new_events w (snd (encode_text L a c w))
               = [call, Log ERROR ''Error while encoding inputs!'' []])"
  using assms by (auto simp: encode_text_def new_events_def)

lemma load_encoded_inputs_swallows:
  assumes "(\<forall>m. files w p \<noteq> Some (NpyFile m)) \<or> (\<forall>m. files w q \<noteq> Some (NpyFile m))"
  shows "fst (load_encoded_inputs p q w) = None
     \<and> (\<exists>x evs. new_events w (snd (load_encoded_inputs p q w))
           = evs @ [Log ERROR ''Error loading encoded inputs as numpy file'' [], LogException x])"
  using assms
  by (auto simp: load_encoded_inputs_def np_load_def new_events_def Let_def
      split: option.splits file_content.splits)

lemma both_encodings_fail:
  assumes miss: "\<not> os_path_exists (encoded_train_inputs_path a) w"
      "\<not> os_path_exists (encoded_test_inputs_path a) w"
    and tr: "dl ''BODY'' ''train'' = Inr c" "fst (encode_text L a c w) = Inl e"
    and te: "dl ''BODY'' ''test'' = Inr c'" "fst (encode_text L a c' w) = Inl e'"
    and lab: "dl ''REMOVED'' ''train'' = Inr ytr" "dl ''REMOVED'' ''test'' = Inr yte"
  shows "fst (encode_or_load_data L a dl w)
           = Inr ((EmptyList, np_array ytr), (EmptyList, np_array yte))
     \<and> files (snd (encode_or_load_data L a dl w)) = files w
     \<and> (\<exists>evs1 evs2. new_events w (snd (encode_or_load_data L a dl w))
           = evs1 @ [Log ERROR ''Error while encoding train dataset'' [], LogException e]
             @ evs2 @ [Log ERROR ''Error while encoding test dataset'' [], LogException e'])"
proof -
  let ?b1 = "encode_train_block L a dl EmptyList w"
  let ?w1 = "snd ?b1"
  let ?b2 = "encode_test_block L a dl EmptyList ?w1"
  have f1: "dl ''BODY'' ''train'' = Inl e
     \<or> (\<exists>c. dl ''BODY'' ''train'' = Inr c
            \<and> fst (encode_text L a c (emit (Log INFO ''Encoding train inputs'' []) w)) = Inl e)"
    using tr encode_text_result_indep [of L a c w] by auto
  have f2: "dl ''BODY'' ''test'' = Inl e'
     \<or> (\<exists>c. dl ''BODY'' ''test'' = Inr c
            \<and> fst (encode_text L a c (emit (Log INFO ''Encoding test inputs'' []) ?w1)) = Inl e')"
    using te encode_text_result_indep [of L a c' w] by auto
  note c1 = encode_train_block_caught [where dl=dl and L=L and a=a and w=w and e=e
      and x=EmptyList, OF f1]
  note c2 = encode_test_block_caught [where dl=dl and L=L and a=a and w="?w1" and e=e'
      and x=EmptyList, OF f2]
  obtain evs1 where evs1: "trace ?w1 =
      trace w @ evs1 @ [Log ERROR ''Error while encoding train dataset'' [], LogException e]"
    using c1(3) by blast
  obtain evs2 where evs2: "trace (snd ?b2) =
      trace ?w1 @ evs2 @ [Log ERROR ''Error while encoding test dataset'' [], LogException e']"
    using c2(3) by blast
  obtain w1 where b1: "?b1 = (Inr EmptyList, w1)" using c1(1) by (cases ?b1) simp
  obtain w2 where b2: "encode_test_block L a dl EmptyList w1 = (Inr EmptyList, w2)"
    using c2(1) b1 by (cases "encode_test_block L a dl EmptyList w1") simp
  have "encode_or_load_inputs L a dl w = (Inr (EmptyList, EmptyList), w2)"
    using b1 b2 by (simp add: inputs_both_missing [OF miss])
  moreover have "snd ?b2 = w2" using b1 b2 by simp
  ultimately have inp: "encode_or_load_inputs L a dl w = (Inr (EmptyList, EmptyList), snd ?b2)"
    by simp
  have 1: "fst (encode_or_load_data L a dl w)
           = Inr ((EmptyList, np_array ytr), (EmptyList, np_array yte))"
    using inp lab by (intro data_returns) simp_all
  have w': "snd (encode_or_load_data L a dl w) = snd ?b2"
    by (simp add: data_world inp)
  have 2: "files (snd (encode_or_load_data L a dl w)) = files w"
    using c1(2) c2(2) by (simp add: w')
  have "trace (snd (encode_or_load_data L a dl w)) = trace w @
      (evs1 @ [Log ERROR ''Error while encoding train dataset'' [], LogException e]
       @ evs2 @ [Log ERROR ''Error while encoding test dataset'' [], LogException e'])"
    by (simp add: w' evs1 evs2)
  then have "new_events w (snd (encode_or_load_data L a dl w)) =
      evs1 @ [Log ERROR ''Error while encoding train dataset'' [], LogException e]
       @ evs2 @ [Log ERROR ''Error while encoding test dataset'' [], LogException e']"
    by (rule new_events_append)
  then show ?thesis using 1 2 by blast
qed

lemma failing_lib_encode:
  "fst (encode_text failing_lib args0 c w) = Inl (OtherException ''LASER model not found'')"
  by (simp add: encode_text_def failing_lib_def lib0_def args0_def)

lemma lib0_encode:
  "fst (encode_text lib0 args0 c w) = Inr (NdArray [length c, 1] (map (\<lambda>x. SFloat 0) c))"
  by (simp add: encode_text_def lib0_def args0_def)

lemma loader0_simps:
  "loader0 ''BODY'' s = Inr [SStr ''first'', SStr ''second'']"
  "loader0 ''REMOVED'' s = Inr [SInt 0, SInt 1]"
  by (simp_all add: loader0_def)

lemma calls_simps [simp]:
  "calls [] = []"
  "calls (e # evs) = (if is_output e then calls evs else e # calls evs)"
  "calls (xs @ ys) = calls xs @ calls ys"
  by (simp_all add: calls_def)

lemma assign_predictions_keeps_frame:
  "assign_predictions pred i ys = Inr pred' \<Longrightarrow> pred' = pred"
  by (induction ys arbitrary: i)
     (auto simp: iloc_setitem_def split: sum.splits)

lemma assign_predictions_ignores_labels:
  "length ys = length ys' \<Longrightarrow> assign_predictions pred i ys = assign_predictions pred i ys'"
proof (induction ys arbitrary: ys' i)
  case Nil
  then show ?case by simp
next
  case (Cons y ys)
  then obtain y' zs where "ys' = y' # zs" "length ys = length zs"
    by (cases ys') auto
  with Cons.IH [of zs "Suc i"] show ?case
    by (simp add: iloc_setitem_def split: sum.splits)
qed

lemma save_predictions_ignores_labels:
  "length (elems y) = length (elems y') \<Longrightarrow>
   save_predictions L a y w = save_predictions L a y' w"
  using assign_predictions_ignores_labels [of "elems y" "elems y'"]
  by (simp add: save_predictions_def Let_def split: sum.splits)

lemma save_predictions_trace:
  "\<exists>evs. trace (snd (save_predictions L a y w)) = trace w @ evs
     \<and> prefix (calls evs) [ReadCsv (test_file a), ToCsv (predictions_file a)]
     \<and> (\<forall>u. fst (save_predictions L a y w) = Inr u \<longrightarrow>
           calls evs = [ReadCsv (test_file a), ToCsv (predictions_file a)])"
  by (auto simp: save_predictions_def to_csv_def Let_def split: sum.splits)

lemma roc_curve_trace:
  "\<exists>evs. trace (snd (roc_curve L y s w)) = trace w @ evs
     \<and> prefix (calls evs) [RocAucScore, RocCurves]
     \<and> (\<forall>u. fst (roc_curve L y s w) = Inr u \<longrightarrow> calls evs = [RocAucScore, RocCurves])"
  by (auto simp: roc_curve_def Let_def split: sum.splits option.splits)

lemma eval_model_trace:
  "\<exists>evs. trace (snd (eval_model L a clf x_test y_test names w)) = trace w @ evs
     \<and> prefix (calls evs) (stated_evaluation a x_test y_test)
     \<and> (\<forall>u. fst (eval_model L a clf x_test y_test names w) = Inr u \<longrightarrow>
           calls evs = stated_evaluation a x_test y_test)"
proof (cases "clf_predict L clf x_test")
  case (Inl e)
  then show ?thesis by (simp add: eval_model_def stated_evaluation_def Let_def)
next
  case yp: (Inr y_pred)
  show ?thesis
  proof (cases "clf_score L clf x_test y_test")
    case (Inl e)
    with yp show ?thesis by (simp add: eval_model_def stated_evaluation_def Let_def)
  next
    case sc: (Inr score)
    show ?thesis
    proof (cases "classification_report L y_test y_pred names")
      case (Inl e)
      with yp sc show ?thesis by (simp add: eval_model_def stated_evaluation_def Let_def)
    next
      case rp: (Inr report)
      show ?thesis
      proof (cases "clf_predict_proba L clf x_test")
        case (Inl e)
        with yp sc rp show ?thesis by (simp add: eval_model_def stated_evaluation_def Let_def)
      next
        case ys: (Inr y_score)
        let ?w7 = "emit (PredictProba x_test) (emit (Print report)
            (emit (ClassificationReport y_test) (emit (Log INFO ''Test score: {}'' [AFloat score])
            (emit (Score x_test y_test) (emit (Log DEBUG ''Predictions: {}'' [AShape (shape y_pred)])
            (emit (Predict x_test) w))))))"
        have ev: "eval_model L a clf x_test y_test names w =
          (case roc_curve L y_test y_score ?w7 of
             (Inl e, w8) \<Rightarrow> (Inl e, w8)
           | (Inr u, w8) \<Rightarrow> save_predictions L a y_pred w8)"
          using yp sc rp ys by (simp add: eval_model_def Let_def)
        obtain r w8 where roc: "roc_curve L y_test y_score ?w7 = (r, w8)"
          by (cases "roc_curve L y_test y_score ?w7")
        obtain evs1 where evs1: "trace w8 = trace ?w7 @ evs1"
          "prefix (calls evs1) [RocAucScore, RocCurves]"
          "\<forall>u. r = Inr u \<longrightarrow> calls evs1 = [RocAucScore, RocCurves]"
          using roc_curve_trace [of L y_test y_score ?w7] roc by auto
        show ?thesis
        proof (cases r)
          case (Inl e)
          have "calls evs1 = [] \<or> calls evs1 = [RocAucScore] \<or> calls evs1 = [RocAucScore, RocCurves]"
            using evs1(2) by (auto simp: prefix_Cons split: list.splits)
          with Inl roc evs1(1) show ?thesis
            by (auto simp: ev stated_evaluation_def)
        next
          case (Inr u)
          obtain evs2 where evs2: "trace (snd (save_predictions L a y_pred w8)) = trace w8 @ evs2"
            "prefix (calls evs2) [ReadCsv (test_file a), ToCsv (predictions_file a)]"
            "\<forall>u. fst (save_predictions L a y_pred w8) = Inr u \<longrightarrow>
               calls evs2 = [ReadCsv (test_file a), ToCsv (predictions_file a)]"
            using save_predictions_trace [of L a y_pred w8] by blast
          have c1: "calls evs1 = [RocAucScore, RocCurves]" using evs1(3) Inr by simp
          have "calls evs2 = [] \<or> calls evs2 = [ReadCsv (test_file a)]
              \<or> calls evs2 = [ReadCsv (test_file a), ToCsv (predictions_file a)]"
            using evs2(2) by (auto simp: prefix_Cons split: list.splits)
          with Inr roc evs1(1) evs2(1,3) c1 show ?thesis
            by (auto simp: ev stated_evaluation_def)
        qed
      qed
    qed
  qed
qed

lemma fit_is_call: "is_fit ev \<Longrightarrow> \<not> is_output ev"
  by (cases ev) simp_all

lemma in_calls: "ev \<in> set evs \<Longrightarrow> \<not> is_output ev \<Longrightarrow> ev \<in> set (calls evs)"
  by (simp add: calls_def)

lemma no_fit_in_evaluation:
  assumes "prefix (calls evs) (stated_evaluation a x y)" and "ev \<in> set evs"
  shows "\<not> is_fit ev"
proof
  assume f: "is_fit ev"
  then have "ev \<in> set (calls evs)" using assms(2) fit_is_call in_calls by blast
  then have "ev \<in> set (stated_evaluation a x y)"
    using assms(1) set_mono_prefix by blast
  with f show False by (auto simp: stated_evaluation_def)
qed

lemma save_model_trace:
  "trace (snd (save_model a clf w)) = trace w @
     [JoblibDump (os_path_join (workdir a) (clf_save_name a @ ''_'' @ clf_type a @ ''.pkl''))]"
  by (simp add: save_model_def joblib_dump_def Let_def)

lemma selected_run:
  assumes run: "make_classifier_and_predict L a (x_train, y_train) (x_test, y_test)
                  names seed clf_name w = (r, w')"
    and sel: "clf_name = ''randomforest'' \<and> est = RandomForestClassifier 100 1000 100 8 seed True
      \<or> clf_name = ''svc'' \<and> est = SVC ''auto'' seed True
      \<or> clf_name = ''mlp'' \<and> est = MLPClassifier [512, 128] ''relu'' True seed"
  shows "\<exists>evs. trace w' = trace w @ evs
     \<and> prefix (calls evs) (stated_pipeline a est (x_train, y_train) (x_test, y_test))
     \<and> (\<forall>ev\<in>set evs. is_fit ev \<longrightarrow> ev = Fit est x_train y_train)
     \<and> (\<forall>mtr mte. x_train = Array mtr \<and> x_test = Array mte \<longrightarrow>
           Fit est x_train y_train \<in> set evs)
     \<and> (\<forall>clf. r = Inr clf \<longrightarrow>
           clf = \<lparr>params = est, fitted_on = Some (x_train, y_train)\<rparr>
           \<and> calls evs = stated_pipeline a est (x_train, y_train) (x_test, y_test))"
proof (cases "shape_of x_train")
  case (Inl e)
  then have "x_train = EmptyList" by (auto simp: shape_of_def split: inputs.splits)
  with Inl run show ?thesis
    by (auto simp: make_classifier_and_predict_def Let_def)
next
  case s1: (Inr sx)
  show ?thesis
  proof (cases "shape_of x_test")
    case (Inl e)
    then have "x_test = EmptyList" by (auto simp: shape_of_def split: inputs.splits)
    with Inl s1 run show ?thesis
      by (auto simp: make_classifier_and_predict_def Let_def)
  next
    case s2: (Inr st)
    let ?w3 = "emit (Log DEBUG ''Target names: {}'' [ANames names])
       (emit (Log DEBUG ''x-test: {} | y-test: {}'' [AShape st, AShape (shape y_test)])
       (emit (Log DEBUG ''x-train: {} | y-train: {}'' [AShape sx, AShape (shape y_train)]) w))"
    let ?w4 = "emit (Fit est x_train y_train) ?w3"
    let ?clf = "\<lparr>params = est, fitted_on = Some (x_train, y_train)\<rparr>"
    have body: "make_classifier_and_predict L a (x_train, y_train) (x_test, y_test)
                  names seed clf_name w =
      (case clf_fit L est x_train y_train of
         Some e \<Rightarrow> (Inl e, ?w4)
       | None \<Rightarrow>
           (case save_model a ?clf ?w4 of
              (Inl e, w5) \<Rightarrow> (Inl e, w5)
            | (Inr u, w5) \<Rightarrow>
                (case eval_model L a ?clf x_test y_test names w5 of
                   (Inl e, w6) \<Rightarrow> (Inl e, w6)
                 | (Inr u', w6) \<Rightarrow> (Inr ?clf, w6))))"
      using sel
      by (elim disjE conjE; hypsubst;
          simp add: make_classifier_and_predict_def s1 s2 Let_def split: option.split)
    show ?thesis
    proof (cases "clf_fit L est x_train y_train")
      case (Some e)
      with run show ?thesis
        by (auto simp: body stated_pipeline_def)
    next
      case None
      obtain r5 w5 where sv: "save_model a ?clf ?w4 = (r5, w5)"
        by (cases "save_model a ?clf ?w4")
      have t5: "trace w5 = trace ?w4 @
          [JoblibDump (os_path_join (workdir a) (clf_save_name a @ ''_'' @ clf_type a @ ''.pkl''))]"
        using save_model_trace [of a ?clf ?w4] sv by simp
      show ?thesis
      proof (cases r5)
        case (Inl e)
        with run None sv t5 show ?thesis
          by (auto simp: body stated_pipeline_def)
      next
        case (Inr u)
        obtain r6 w6 where ev: "eval_model L a ?clf x_test y_test names w5 = (r6, w6)"
          by (cases "eval_model L a ?clf x_test y_test names w5")
        obtain evs where evs: "trace w6 = trace w5 @ evs"
          "prefix (calls evs) (stated_evaluation a x_test y_test)"
          "\<forall>u. r6 = Inr u \<longrightarrow> calls evs = stated_evaluation a x_test y_test"
          using eval_model_trace [of L a ?clf x_test y_test names w5] ev by auto
        have nf: "\<forall>ev\<in>set evs. \<not> is_fit ev"
          using no_fit_in_evaluation [OF evs(2)] by blast
        have w': "w' = w6" and r: "r = (case r6 of Inl e \<Rightarrow> Inl e | Inr u' \<Rightarrow> Inr ?clf)"
          using run None sv Inr ev by (auto simp: body split: sum.splits)
        have tr: "trace w' = trace w @
            ([Log DEBUG ''x-train: {} | y-train: {}'' [AShape sx, AShape (shape y_train)],
              Log DEBUG ''x-test: {} | y-test: {}'' [AShape st, AShape (shape y_test)],
              Log DEBUG ''Target names: {}'' [ANames names],
              Fit est x_train y_train,
              JoblibDump (os_path_join (workdir a) (clf_save_name a @ ''_'' @ clf_type a @ ''.pkl''))]
             @ evs)"
          by (simp add: w' evs(1) t5)
        show ?thesis
          apply (rule exI, rule conjI, rule tr)
          using evs(2,3) nf r
          by (auto simp: stated_pipeline_def split: sum.splits)
      qed
    qed
  qed
qed

lemma unselected_run:
  assumes run: "make_classifier_and_predict L a (x_train, y_train) (x_test, y_test)
                  names seed clf_name w = (r, w')"
    and sel: "clf_name \<noteq> ''randomforest''" "clf_name \<noteq> ''svc''" "clf_name \<noteq> ''mlp''"
  shows "(\<exists>evs. trace w' = trace w @ evs \<and> calls evs = [])
     \<and> files w' = files w
     \<and> (\<exists>e. r = Inl e)
     \<and> (\<forall>mtr mte. x_train = Array mtr \<and> x_test = Array mte \<longrightarrow>
           r = Inl (UnboundLocalError ''clf''))"
  using assms
  by (auto simp: make_classifier_and_predict_def shape_of_def Let_def
      split: inputs.splits)

lemma run0:
  "name = ''randomforest'' \<or> name = ''svc'' \<or> name = ''mlp'' \<Longrightarrow>
   fst (make_classifier_and_predict lib0 args0 train0 test0 [''kept'', ''removed''] 7 name
          empty_world)
     = Inr (fitted0 (if name = ''randomforest'' then RandomForestClassifier 100 1000 100 8 7 True
                     else if name = ''svc'' then SVC ''auto'' 7 True
                     else MLPClassifier [512, 128] ''relu'' True 7))"
  by (elim disjE; simp add: make_classifier_and_predict_def train0_def test0_def fitted0_def
      shape_of_def lib0_def args0_def empty_world_def save_model_def joblib_dump_def
      eval_model_def roc_curve_def save_predictions_def select_columns_def frame0_def
      iloc_setitem_def iloc_def to_csv_def emit_def write_file_def Let_def)

lemma eval0:
  "fst (eval_model lib0 args0 clf0 (fst test0) (snd test0) [''kept'', ''removed''] empty_world)
     = Inr ()"
  by (simp add: test0_def lib0_def args0_def empty_world_def
      eval_model_def roc_curve_def save_predictions_def select_columns_def frame0_def
      iloc_setitem_def iloc_def to_csv_def emit_def write_file_def Let_def)

lemma save_predictions_files:
  "q \<noteq> predictions_file a \<Longrightarrow> files (snd (save_predictions L a y w)) q = files w q"
  "writable (snd (save_predictions L a y w)) = writable w"
  by (auto simp: save_predictions_def to_csv_def Let_def split: sum.splits)

lemma roc_curve_files:
  "files (snd (roc_curve L y s w)) = files w"
  "writable (snd (roc_curve L y s w)) = writable w"
  by (auto simp: roc_curve_def Let_def split: sum.splits option.splits)

lemma eval_model_files:
  "q \<noteq> predictions_file a \<Longrightarrow>
   files (snd (eval_model L a clf x_test y_test names w)) q = files w q"
  using save_predictions_files(1) [of q a L] roc_curve_files(1) [of L y_test]
  by (auto simp: eval_model_def Let_def split: sum.splits prod.splits)
     (metis files_emit snd_conv)+

lemma save_predictions_returns:
  assumes "fst (save_predictions L a y w) = Inr u"
  shows "\<exists>frame gold.
      read_csv L (files w) (test_file a) = Inr frame
    \<and> select_columns frame [''BODY'', ''REMOVED''] = Inr gold
    \<and> writable w (predictions_file a)
    \<and> trace (snd (save_predictions L a y w))
        = trace w @ [ReadCsv (test_file a), ToCsv (predictions_file a)]
    \<and> files (snd (save_predictions L a y w))
        = (files w)(predictions_file a \<mapsto>
            TableFile [CHR 0x09] (''ID'' # map fst (df_cols gold))
              (map (\<lambda>i. df_index gold ! i # map (\<lambda>(c, vs). vs ! i) (df_cols gold))
                 [0..<length (df_index gold)]))"
proof -
  obtain frame where f: "read_csv L (files w) (test_file a) = Inr frame"
    using assms by (cases "read_csv L (files w) (test_file a)")
      (simp_all add: save_predictions_def Let_def)
  obtain gold where g: "select_columns frame [''BODY'', ''REMOVED''] = Inr gold"
    using assms f by (cases "select_columns frame [''BODY'', ''REMOVED'']")
      (simp_all add: save_predictions_def Let_def)
  obtain pred' where p: "assign_predictions gold 0 (elems y) = Inr pred'"
    using assms f g by (cases "assign_predictions gold 0 (elems y)")
      (simp_all add: save_predictions_def Let_def)
  have p': "pred' = gold" using p by (rule assign_predictions_keeps_frame)
  have wr: "writable w (predictions_file a)"
    using assms f g p by (simp add: save_predictions_def to_csv_def Let_def split: if_splits)
  show ?thesis
    using f g p wr unfolding p'
    by (simp add: save_predictions_def to_csv_def Let_def)
qed

lemma roc_curve_returns:
  assumes "fst (roc_curve L y s w) = Inr u"
  shows "\<exists>roc_score. roc_auc_score L y s = Inr roc_score
    \<and> trace (snd (roc_curve L y s w))
        = trace w @ [RocAucScore, Log INFO ''ROC AUC score: {}'' [AFloat roc_score], RocCurves]"
  using assms
  by (auto simp: roc_curve_def Let_def split: sum.splits option.splits)


lemma eval_model_returns:
  assumes "fst (eval_model L a clf x_test y_test names w) = Inr u"
  shows "\<exists>y_pred score report y_score roc_score frame gold.
      clf_predict L clf x_test = Inr y_pred
    \<and> clf_score L clf x_test y_test = Inr score
    \<and> classification_report L y_test y_pred names = Inr report
    \<and> clf_predict_proba L clf x_test = Inr y_score
    \<and> roc_auc_score L y_test y_score = Inr roc_score
    \<and> read_csv L (files w) (test_file a) = Inr frame
    \<and> select_columns frame [''BODY'', ''REMOVED''] = Inr gold
    \<and> new_events w (snd (eval_model L a clf x_test y_test names w))
        = [Predict x_test, Log DEBUG ''Predictions: {}'' [AShape (shape y_pred)],
           Score x_test y_test, Log INFO ''Test score: {}'' [AFloat score],
           ClassificationReport y_test, Print report,
           PredictProba x_test,
           RocAucScore, Log INFO ''ROC AUC score: {}'' [AFloat roc_score], RocCurves,
           ReadCsv (test_file a), ToCsv (predictions_file a)]
    \<and> files (snd (eval_model L a clf x_test y_test names w))
        = (files w)(predictions_file a \<mapsto>
            TableFile [CHR 0x09] (''ID'' # map fst (df_cols gold))
              (map (\<lambda>i. df_index gold ! i # map (\<lambda>(c, vs). vs ! i) (df_cols gold))
                 [0..<length (df_index gold)]))"
proof -
  obtain y_pred where yp: "clf_predict L clf x_test = Inr y_pred"
    using assms by (cases "clf_predict L clf x_test") (simp_all add: eval_model_def Let_def)
  obtain score where sc: "clf_score L clf x_test y_test = Inr score"
    using assms yp by (cases "clf_score L clf x_test y_test")
      (simp_all add: eval_model_def Let_def)
  obtain report where rp: "classification_report L y_test y_pred names = Inr report"
    using assms yp sc by (cases "classification_report L y_test y_pred names")
      (simp_all add: eval_model_def Let_def)
  obtain y_score where ys: "clf_predict_proba L clf x_test = Inr y_score"
    using assms yp sc rp by (cases "clf_predict_proba L clf x_test")
      (simp_all add: eval_model_def Let_def)
  let ?w7 = "emit (PredictProba x_test) (emit (Print report)
      (emit (ClassificationReport y_test) (emit (Log INFO ''Test score: {}'' [AFloat score])
      (emit (Score x_test y_test) (emit (Log DEBUG ''Predictions: {}'' [AShape (shape y_pred)])
      (emit (Predict x_test) w))))))"
  have ev: "eval_model L a clf x_test y_test names w =
    (case roc_curve L y_test y_score ?w7 of
       (Inl e, w8) \<Rightarrow> (Inl e, w8)
     | (Inr u, w8) \<Rightarrow> save_predictions L a y_pred w8)"
    using yp sc rp ys by (simp add: eval_model_def Let_def)
  obtain r w8 where roc: "roc_curve L y_test y_score ?w7 = (r, w8)"
    by (cases "roc_curve L y_test y_score ?w7")
  obtain u8 where r: "r = Inr u8"
    using assms roc by (cases r) (simp_all add: ev)
  have sp: "eval_model L a clf x_test y_test names w = save_predictions L a y_pred w8"
    using roc r by (simp add: ev)
  obtain roc_score where rs: "roc_auc_score L y_test y_score = Inr roc_score"
    "trace w8 = trace ?w7 @ [RocAucScore, Log INFO ''ROC AUC score: {}'' [AFloat roc_score],
        RocCurves]"
    using roc_curve_returns [of L y_test y_score ?w7 u8] roc r by auto
  have f8: "files w8 = files w"
    using roc_curve_files(1) [of L y_test y_score ?w7] roc by simp
  obtain frame gold where fg: "read_csv L (files w8) (test_file a) = Inr frame"
    "select_columns frame [''BODY'', ''REMOVED''] = Inr gold"
    "trace (snd (save_predictions L a y_pred w8))
        = trace w8 @ [ReadCsv (test_file a), ToCsv (predictions_file a)]"
    "files (snd (save_predictions L a y_pred w8))
        = (files w8)(predictions_file a \<mapsto>
            TableFile [CHR 0x09] (''ID'' # map fst (df_cols gold))
              (map (\<lambda>i. df_index gold ! i # map (\<lambda>(c, vs). vs ! i) (df_cols gold))
                 [0..<length (df_index gold)]))"
    using save_predictions_returns [of L a y_pred w8 u] assms sp by auto
  have "trace (snd (eval_model L a clf x_test y_test names w)) = trace w @
     [Predict x_test, Log DEBUG ''Predictions: {}'' [AShape (shape y_pred)],
           Score x_test y_test, Log INFO ''Test score: {}'' [AFloat score],
           ClassificationReport y_test, Print report,
           PredictProba x_test,
           RocAucScore, Log INFO ''ROC AUC score: {}'' [AFloat roc_score], RocCurves,
           ReadCsv (test_file a), ToCsv (predictions_file a)]"
    by (simp add: sp fg(3) rs(2))
  then have n: "new_events w (snd (eval_model L a clf x_test y_test names w)) =
     [Predict x_test, Log DEBUG ''Predictions: {}'' [AShape (shape y_pred)],
           Score x_test y_test, Log INFO ''Test score: {}'' [AFloat score],
           ClassificationReport y_test, Print report,
           PredictProba x_test,
           RocAucScore, Log INFO ''ROC AUC score: {}'' [AFloat roc_score], RocCurves,
           ReadCsv (test_file a), ToCsv (predictions_file a)]"
    by (rule new_events_append)
  show ?thesis
    using yp sc rp ys rs(1) fg(1,2,4) n unfolding f8 sp
    by (intro exI conjI) assumption+
qed


lemma save_model_cases:
  "writable w (os_path_join (workdir a) (clf_save_name a @ ''_'' @ clf_type a @ ''.pkl'')) \<Longrightarrow>
   fst (save_model a clf w) = Inr ()
   \<and> files (snd (save_model a clf w))
       = (files w)(os_path_join (workdir a) (clf_save_name a @ ''_'' @ clf_type a @ ''.pkl'')
            \<mapsto> PklFile clf)"
  "\<not> writable w (os_path_join (workdir a) (clf_save_name a @ ''_'' @ clf_type a @ ''.pkl'')) \<Longrightarrow>
   (\<exists>e. fst (save_model a clf w) = Inl e)"
  "writable (snd (save_model a clf w)) = writable w"
  by (simp_all add: save_model_def joblib_dump_def Let_def)

lemma selected_run_detail:
  assumes run: "make_classifier_and_predict L a (x_train, y_train) (x_test, y_test)
                  names seed clf_name w = (r, w')"
    and sel: "clf_name = ''randomforest'' \<and> est = RandomForestClassifier 100 1000 100 8 seed True
      \<or> clf_name = ''svc'' \<and> est = SVC ''auto'' seed True
      \<or> clf_name = ''mlp'' \<and> est = MLPClassifier [512, 128] ''relu'' True seed"
  shows "(1 < length (calls (new_events w w')) \<longrightarrow> clf_fit L est x_train y_train = None)
     \<and> (2 < length (calls (new_events w w')) \<longrightarrow>
          writable w (os_path_join (workdir a) (clf_save_name a @ ''_'' @ clf_type a @ ''.pkl''))
          \<and> (files w' (os_path_join (workdir a) (clf_save_name a @ ''_'' @ clf_type a @ ''.pkl''))
                = Some (PklFile \<lparr>params = est, fitted_on = Some (x_train, y_train)\<rparr>)
              \<or> os_path_join (workdir a) (clf_save_name a @ ''_'' @ clf_type a @ ''.pkl'')
                = predictions_file a))
     \<and> (\<forall>sx st. shape_of x_train = Inr sx \<and> shape_of x_test = Inr st
            \<and> clf_fit L est x_train y_train = None
            \<and> writable w (os_path_join (workdir a) (clf_save_name a @ ''_'' @ clf_type a @ ''.pkl''))
          \<longrightarrow> (\<exists>w5. new_events w w5 =
                   [Log DEBUG ''x-train: {} | y-train: {}'' [AShape sx, AShape (shape y_train)],
                    Log DEBUG ''x-test: {} | y-test: {}'' [AShape st, AShape (shape y_test)],
                    Log DEBUG ''Target names: {}'' [ANames names],
                    Fit est x_train y_train,
                    JoblibDump (os_path_join (workdir a)
                                  (clf_save_name a @ ''_'' @ clf_type a @ ''.pkl''))]
               \<and> files w5 = (files w)
                    (os_path_join (workdir a) (clf_save_name a @ ''_'' @ clf_type a @ ''.pkl'')
                       \<mapsto> PklFile \<lparr>params = est, fitted_on = Some (x_train, y_train)\<rparr>)
               \<and> writable w5 = writable w
               \<and> w' = snd (eval_model L a \<lparr>params = est, fitted_on = Some (x_train, y_train)\<rparr>
                              x_test y_test names w5)
               \<and> r = (case fst (eval_model L a
                                  \<lparr>params = est, fitted_on = Some (x_train, y_train)\<rparr>
                                  x_test y_test names w5) of
                        Inl e \<Rightarrow> Inl e
                      | Inr u \<Rightarrow> Inr \<lparr>params = est, fitted_on = Some (x_train, y_train)\<rparr>)))"
proof (cases "shape_of x_train")
  case (Inl e)
  with run show ?thesis
    by (auto simp: make_classifier_and_predict_def Let_def)
next
  case s1: (Inr sx)
  show ?thesis
  proof (cases "shape_of x_test")
    case (Inl e)
    with s1 run show ?thesis
      by (auto simp: make_classifier_and_predict_def Let_def)
  next
    case s2: (Inr st)
    let ?p = "os_path_join (workdir a) (clf_save_name a @ ''_'' @ clf_type a @ ''.pkl'')"
    let ?w3 = "emit (Log DEBUG ''Target names: {}'' [ANames names])
       (emit (Log DEBUG ''x-test: {} | y-test: {}'' [AShape st, AShape (shape y_test)])
       (emit (Log DEBUG ''x-train: {} | y-train: {}'' [AShape sx, AShape (shape y_train)]) w))"
    let ?w4 = "emit (Fit est x_train y_train) ?w3"
    let ?clf = "\<lparr>params = est, fitted_on = Some (x_train, y_train)\<rparr>"
    have body: "make_classifier_and_predict L a (x_train, y_train) (x_test, y_test)
                  names seed clf_name w =
      (case clf_fit L est x_train y_train of
         Some e \<Rightarrow> (Inl e, ?w4)
       | None \<Rightarrow>
           (case save_model a ?clf ?w4 of
              (Inl e, w5) \<Rightarrow> (Inl e, w5)
            | (Inr u, w5) \<Rightarrow>
                (case eval_model L a ?clf x_test y_test names w5 of
                   (Inl e, w6) \<Rightarrow> (Inl e, w6)
                 | (Inr u', w6) \<Rightarrow> (Inr ?clf, w6))))"
      using sel
      by (elim disjE conjE; hypsubst;
          simp add: make_classifier_and_predict_def s1 s2 Let_def split: option.split)
    show ?thesis
    proof (cases "clf_fit L est x_train y_train")
      case (Some e)
      with run have "trace w' = trace w @
          [Log DEBUG ''x-train: {} | y-train: {}'' [AShape sx, AShape (shape y_train)],
           Log DEBUG ''x-test: {} | y-test: {}'' [AShape st, AShape (shape y_test)],
           Log DEBUG ''Target names: {}'' [ANames names], Fit est x_train y_train]"
        by (auto simp: body)
      then have "calls (new_events w w') = [Fit est x_train y_train]"
        by simp
      with Some show ?thesis by simp
    next
      case None
      obtain r5 w5 where sv: "save_model a ?clf ?w4 = (r5, w5)"
        by (cases "save_model a ?clf ?w4")
      have t5: "trace w5 = trace w @
          [Log DEBUG ''x-train: {} | y-train: {}'' [AShape sx, AShape (shape y_train)],
           Log DEBUG ''x-test: {} | y-test: {}'' [AShape st, AShape (shape y_test)],
           Log DEBUG ''Target names: {}'' [ANames names], Fit est x_train y_train,
           JoblibDump ?p]"
        using save_model_trace [of a ?clf ?w4] sv by simp
      have wr5: "writable w5 = writable w"
        using save_model_cases(3) [of a ?clf ?w4] sv by simp
      show ?thesis
      proof (cases "writable w ?p")
        case False
        then obtain e where "r5 = Inl e"
          using save_model_cases(2) [of ?w4 a ?clf] sv by auto
        with run None sv have "w' = w5" by (simp add: body)
        with t5 have "calls (new_events w w') = [Fit est x_train y_train, JoblibDump ?p]"
          by simp
        with None False show ?thesis by simp
      next
        case True
        then have r5: "r5 = Inr ()"
          and f5: "files w5 = (files w)(?p \<mapsto> PklFile ?clf)"
          using save_model_cases(1) [of ?w4 a ?clf] sv by auto
        let ?ev = "eval_model L a ?clf x_test y_test names w5"
        have w': "w' = snd ?ev"
          and r: "r = (case fst ?ev of Inl e \<Rightarrow> Inl e | Inr u \<Rightarrow> Inr ?clf)"
          using run None sv r5 by (auto simp: body split: prod.splits sum.splits)
        have n5: "new_events w w5 =
          [Log DEBUG ''x-train: {} | y-train: {}'' [AShape sx, AShape (shape y_train)],
           Log DEBUG ''x-test: {} | y-test: {}'' [AShape st, AShape (shape y_test)],
           Log DEBUG ''Target names: {}'' [ANames names], Fit est x_train y_train,
           JoblibDump ?p]"
          using t5 by (rule new_events_append)
        have fl: "files w' ?p = Some (PklFile ?clf) \<or> ?p = predictions_file a"
          using eval_model_files [of ?p a L ?clf x_test y_test names w5] f5 w' by auto
        have dec: "\<exists>w5. new_events w w5 =
                   [Log DEBUG ''x-train: {} | y-train: {}'' [AShape sx, AShape (shape y_train)],
                    Log DEBUG ''x-test: {} | y-test: {}'' [AShape st, AShape (shape y_test)],
                    Log DEBUG ''Target names: {}'' [ANames names],
                    Fit est x_train y_train, JoblibDump ?p]
               \<and> files w5 = (files w)(?p \<mapsto> PklFile ?clf)
               \<and> writable w5 = writable w
               \<and> w' = snd (eval_model L a ?clf x_test y_test names w5)
               \<and> r = (case fst (eval_model L a ?clf x_test y_test names w5) of
                        Inl e \<Rightarrow> Inl e | Inr u \<Rightarrow> Inr ?clf)"
          using n5 f5 wr5 w' r by blast
        show ?thesis
          using None True fl dec s1 s2 by simp
      qed
    qed
  qed
qed

subsection \<open>The claims\<close>

text \<open>
  C1, as amended. If both cache files exist, \<^verbatim>\<open>encode_or_load_data\<close> calls no encoder and
  leaves the files as they are; if moreover \<^verbatim>\<open>np.load\<close> can read both files and the data
  loader supplies the two columns of labels, it returns the two matrices loaded from
  those files. (A cache file that exists but cannot be loaded makes the call raise
  \<^verbatim>\<open>TypeError\<close>, as the counterexample shows.)
\<close>

theorem cached_inputs_are_loaded:
  assumes "os_path_exists (encoded_train_inputs_path a) w"
    and "os_path_exists (encoded_test_inputs_path a) w"
  shows "(\<forall>e\<in>set (new_events w (snd (encode_or_load_data L a dl w))). \<not> is_encoding e)
       \<and> files (snd (encode_or_load_data L a dl w)) = files w
       \<and> (files w (encoded_train_inputs_path a) = Some (NpyFile tr) \<and>
          files w (encoded_test_inputs_path a) = Some (NpyFile te) \<and>
          dl ''REMOVED'' ''train'' = Inr ytr \<and> dl ''REMOVED'' ''test'' = Inr yte \<longrightarrow>
          fst (encode_or_load_data L a dl w) =
            Inr ((Array tr, np_array ytr), (Array te, np_array yte)))"
proof -
  let ?w1 = "emit (Log INFO ''Loading train & test inputs from file'' []) w"
  let ?ld = "load_encoded_inputs (encoded_train_inputs_path a) (encoded_test_inputs_path a) ?w1"
  have inp: "snd (encode_or_load_inputs L a dl w) = snd ?ld"
    by (simp add: inputs_when_cached [OF assms] split: prod.splits option.splits)
  obtain evs where evs: "trace (snd ?ld) = trace ?w1 @ evs"
    "\<forall>e\<in>set evs. is_output e \<or> e = NpLoad (encoded_train_inputs_path a)
        \<or> e = NpLoad (encoded_test_inputs_path a)"
    using load_encoded_inputs_world(1) by blast
  have "trace (snd (encode_or_load_data L a dl w))
          = trace w @ (Log INFO ''Loading train & test inputs from file'' [] # evs)"
    by (simp add: data_world inp evs)
  then have n: "new_events w (snd (encode_or_load_data L a dl w))
          = Log INFO ''Loading train & test inputs from file'' [] # evs"
    by (rule new_events_append)
  have 1: "\<forall>e\<in>set (new_events w (snd (encode_or_load_data L a dl w))). \<not> is_encoding e"
    unfolding n using evs(2) by (auto dest: output_not_encoding)
  have 2: "files (snd (encode_or_load_data L a dl w)) = files w"
    by (simp add: data_world inp load_encoded_inputs_world(2))
  have 3: "fst (encode_or_load_data L a dl w) =
           Inr ((Array tr, np_array ytr), (Array te, np_array yte))"
    if h: "files w (encoded_train_inputs_path a) = Some (NpyFile tr)"
         "files w (encoded_test_inputs_path a) = Some (NpyFile te)"
         "dl ''REMOVED'' ''train'' = Inr ytr" "dl ''REMOVED'' ''test'' = Inr yte"
  proof -
    have "fst ?ld = Some (tr, te)"
      using h(1,2) by (simp add: load_encoded_inputs_iff)
    then obtain w2 where "?ld = (Some (tr, te), w2)"
      by (cases ?ld) simp
    then show ?thesis
      using h(3,4) by (simp add: encode_or_load_data_def inputs_when_cached [OF assms] Let_def)
  qed
  show ?thesis using 1 2 3 by blast
qed

lemma cached_world_exists:
  "os_path_exists (encoded_train_inputs_path args0) cached_world"
  "os_path_exists (encoded_test_inputs_path args0) cached_world"
  by (simp_all add: args0_paths os_path_exists_def cached_world_def)

theorem cached_inputs_are_loaded_witness:
  "os_path_exists (encoded_train_inputs_path args0) cached_world
   \<and> os_path_exists (encoded_test_inputs_path args0) cached_world
   \<and> fst (encode_or_load_data lib0 args0 loader0 cached_world) =
       Inr ((Array matrix0, np_array [SInt 0, SInt 1]), (Array matrix0, np_array [SInt 0, SInt 1]))
   \<and> files (snd (encode_or_load_data lib0 args0 loader0 cached_world)) = files cached_world"
proof -
  have f: "files cached_world (encoded_train_inputs_path args0) = Some (NpyFile matrix0)"
    "files cached_world (encoded_test_inputs_path args0) = Some (NpyFile matrix0)"
    by (simp_all add: args0_paths cached_world_def)
  have l: "loader0 ''REMOVED'' ''train'' = Inr [SInt 0, SInt 1]"
    "loader0 ''REMOVED'' ''test'' = Inr [SInt 0, SInt 1]"
    by (simp_all add: loader0_def)
  show ?thesis
    using cached_world_exists f l
      cached_inputs_are_loaded [OF cached_world_exists, of lib0 loader0 matrix0 matrix0
        "[SInt 0, SInt 1]" "[SInt 0, SInt 1]"]
    by simp
qed

theorem cached_but_unreadable_counterexample:
  "os_path_exists (encoded_train_inputs_path args0) broken_cache_world
   \<and> os_path_exists (encoded_test_inputs_path args0) broken_cache_world
   \<and> fst (encode_or_load_data lib0 args0 loader0 broken_cache_world) =
       Inl (TypeError ''cannot unpack non-iterable NoneType object'')"
  by (simp add: args0_paths os_path_exists_def broken_cache_world_def encode_or_load_data_def
      encode_or_load_inputs_def load_encoded_inputs_def np_load_def Let_def)

text \<open>
  C10. \<^verbatim>\<open>save_model\<close> and \<^verbatim>\<open>load_model\<close> form a round trip: for the same
  \<^verbatim>\<open>args\<close>, a save that succeeded wrote to one path, namely
  \<^verbatim>\<open>{clf_save_name}_{clf_type}.pkl\<close> joined to \<^verbatim>\<open>args.workdir\<close>; \<^verbatim>\<open>load_model\<close>
  reads from exactly that path and returns the classifier that was saved.
\<close>

theorem save_load_model_round_trip:
  assumes "save_model a clf w = (Inr u, w')"
  shows "\<exists>p. p = os_path_join (workdir a) (clf_save_name a @ ''_'' @ clf_type a @ ''.pkl'')
           \<and> trace w' = trace w @ [JoblibDump p]
           \<and> files w' = (files w)(p \<mapsto> PklFile clf)
           \<and> load_model a w' = (Inr clf, emit (JoblibLoad p) w')"
  using assms
  by (auto simp: save_model_def load_model_def joblib_dump_def joblib_load_def
      emit_def write_file_def Let_def split: if_splits)

theorem save_load_model_round_trip_witness:
  "save_model args0 clf0 empty_world =
     (Inr (), write_file ''work/model_mlp.pkl'' (PklFile clf0)
                (emit (JoblibDump ''work/model_mlp.pkl'') empty_world))
   \<and> fst (load_model args0 (snd (save_model args0 clf0 empty_world))) = Inr clf0"
proof -
  have s: "save_model args0 clf0 empty_world =
     (Inr (), write_file ''work/model_mlp.pkl'' (PklFile clf0)
                (emit (JoblibDump ''work/model_mlp.pkl'') empty_world))"
    by (simp add: save_model_def joblib_dump_def os_path_join_def args0_def empty_world_def
        emit_def write_file_def Let_def)
  from save_load_model_round_trip [OF s]
  have "fst (load_model args0 (write_file ''work/model_mlp.pkl'' (PklFile clf0)
                (emit (JoblibDump ''work/model_mlp.pkl'') empty_world))) = Inr clf0"
    by auto
  with s show ?thesis
    by (simp only: snd_conv simp_thms)
qed

text \<open>
  C5. \<^verbatim>\<open>encode_text\<close> selects between exactly two encoders by the string
  \<^verbatim>\<open>args.encoder_type\<close>: for \<^verbatim>\<open>'LASER'\<close> the only call is the LASER encoder on the
  comments, for \<^verbatim>\<open>'LSI'\<close> the only call is the LSI encoder (\<^verbatim>\<open>keep_n=10000\<close>), and in
  both cases the result is what that encoder returned: the encoded matrix, or the
  exception it raised. For any other name no encoder is called and the unbound variable
  makes the call raise.
\<close>

theorem encode_text_selects_encoder:
  "(encoder_type a = ''LASER'' \<longrightarrow>
      fst (encode_text L a c w) = laser_encode L a c (parallel a)
      \<and> calls (new_events w (snd (encode_text L a c w))) = [LaserEncode c (parallel a)])
   \<and> (encoder_type a = ''LSI'' \<longrightarrow>
      fst (encode_text L a c w) = lsi_fit_transform L 10000 c
      \<and> calls (new_events w (snd (encode_text L a c w))) = [LSIFitTransform 10000 c])
   \<and> (encoder_type a \<noteq> ''LASER'' \<and> encoder_type a \<noteq> ''LSI'' \<longrightarrow>
      fst (encode_text L a c w) = Inl (UnboundLocalError ''encoded_comments'')
      \<and> calls (new_events w (snd (encode_text L a c w))) = [])"
  by (simp add: encode_text_def calls_def new_events_def split: sum.splits)

theorem encode_text_selects_encoder_witness:
  "fst (encode_text lib0 args0 [SStr ''first''] empty_world) = Inr (NdArray [1, 1] [SFloat 0])
   \<and> fst (encode_text lib0 lsi_args [SStr ''first''] empty_world) = Inr (NdArray [1, 1] [SFloat 1])
   \<and> fst (encode_text lib0 other_args [SStr ''first''] empty_world)
        = Inl (UnboundLocalError ''encoded_comments'')"
  using encode_text_selects_encoder [of args0 lib0 "[SStr ''first'']" empty_world]
    encode_text_selects_encoder [of lsi_args lib0 "[SStr ''first'']" empty_world]
    encode_text_selects_encoder [of other_args lib0 "[SStr ''first'']" empty_world]
  by (simp add: args0_def lsi_args_def other_args_def lib0_def)

text \<open>
  C6 fails as stated: \<^verbatim>\<open>load_encoded_inputs\<close> checks no shape. On two cache files that
  hold a 2 x 3 and a 1 x 5 array it returns these two arrays, neither of width 1024 and
  of different widths.
\<close>

theorem narrow_cache_counterexample:
  "fst (load_encoded_inputs ''train.npy'' ''test.npy'' narrow_cache_world)
     = Some (narrow_train, narrow_test)
   \<and> shape narrow_train = [2, 3] \<and> shape narrow_test = [1, 5]"
  by (simp add: load_encoded_inputs_def np_load_def narrow_cache_world_def Let_def
      narrow_train_def narrow_test_def)

text \<open>
  C2. When the selected encoder raises, \<^verbatim>\<open>encode_text\<close> logs the error and raises the
  same exception again. Its caller \<^verbatim>\<open>encode_or_load_data\<close> catches the exception, logs
  the error and the exception and goes on: when neither cache file exists and both
  encodings raise, it returns with both encoded inputs still the empty list
  \<^verbatim>\<open>[]\<close> and no file written. Likewise \<^verbatim>\<open>load_encoded_inputs\<close> logs a load error and the
  exception and returns \<^verbatim>\<open>None\<close>.
\<close>

theorem errors_logged_then_swallowed:
  "(encoder_type a = ''LASER'' \<and> laser_encode L a c (parallel a) = Inl e
      \<or> encoder_type a = ''LSI'' \<and> lsi_fit_transform L 10000 c = Inl e \<longrightarrow>
      fst (encode_text L a c w) = Inl e
      \<and> (\<exists>call. is_encoding call
            \<and> new_events w (snd (encode_text L a c w))
                = [call, Log ERROR ''Error while encoding inputs!'' []]))
   \<and> (\<not> os_path_exists (encoded_train_inputs_path a) w
      \<and> \<not> os_path_exists (encoded_test_inputs_path a) w
      \<and> dl ''BODY'' ''train'' = Inr c \<and> fst (encode_text L a c w) = Inl e
      \<and> dl ''BODY'' ''test'' = Inr c' \<and> fst (encode_text L a c' w) = Inl e'
      \<and> dl ''REMOVED'' ''train'' = Inr ytr \<and> dl ''REMOVED'' ''test'' = Inr yte \<longrightarrow>
      fst (encode_or_load_data L a dl w)
           = Inr ((EmptyList, np_array ytr), (EmptyList, np_array yte))
      \<and> files (snd (encode_or_load_data L a dl w)) = files w
      \<and> (\<exists>evs1 evs2. new_events w (snd (encode_or_load_data L a dl w))
           = evs1 @ [Log ERROR ''Error while encoding train dataset'' [], LogException e]
             @ evs2 @ [Log ERROR ''Error while encoding test dataset'' [], LogException e']))
   \<and> ((\<forall>m. files w p \<noteq> Some (NpyFile m)) \<or> (\<forall>m. files w q \<noteq> Some (NpyFile m)) \<longrightarrow>
      fst (load_encoded_inputs p q w) = None
      \<and> (\<exists>x evs. new_events w (snd (load_encoded_inputs p q w))
           = evs @ [Log ERROR ''Error loading encoded inputs as numpy file'' [], LogException x]))"
proof (intro conjI impI)
  assume "encoder_type a = ''LASER'' \<and> laser_encode L a c (parallel a) = Inl e
      \<or> encoder_type a = ''LSI'' \<and> lsi_fit_transform L 10000 c = Inl e"
  from encode_text_reraises [OF this, of w]
  show "fst (encode_text L a c w) = Inl e"
    and "\<exists>call. is_encoding call
            \<and> new_events w (snd (encode_text L a c w))
                = [call, Log ERROR ''Error while encoding inputs!'' []]"
    by blast+
next
  assume h: "\<not> os_path_exists (encoded_train_inputs_path a) w
      \<and> \<not> os_path_exists (encoded_test_inputs_path a) w
      \<and> dl ''BODY'' ''train'' = Inr c \<and> fst (encode_text L a c w) = Inl e
      \<and> dl ''BODY'' ''test'' = Inr c' \<and> fst (encode_text L a c' w) = Inl e'
      \<and> dl ''REMOVED'' ''train'' = Inr ytr \<and> dl ''REMOVED'' ''test'' = Inr yte"
  have r: "fst (encode_or_load_data L a dl w)
           = Inr ((EmptyList, np_array ytr), (EmptyList, np_array yte))
     \<and> files (snd (encode_or_load_data L a dl w)) = files w
     \<and> (\<exists>evs1 evs2. new_events w (snd (encode_or_load_data L a dl w))
           = evs1 @ [Log ERROR ''Error while encoding train dataset'' [], LogException e]
             @ evs2 @ [Log ERROR ''Error while encoding test dataset'' [], LogException e'])"
    using h by (intro both_encodings_fail [where c=c and c'=c']) simp_all
  from r show "fst (encode_or_load_data L a dl w)
           = Inr ((EmptyList, np_array ytr), (EmptyList, np_array yte))"
    and "files (snd (encode_or_load_data L a dl w)) = files w"
    and "\<exists>evs1 evs2. new_events w (snd (encode_or_load_data L a dl w))
           = evs1 @ [Log ERROR ''Error while encoding train dataset'' [], LogException e]
             @ evs2 @ [Log ERROR ''Error while encoding test dataset'' [], LogException e']"
    by blast+
next
  assume "(\<forall>m. files w p \<noteq> Some (NpyFile m)) \<or> (\<forall>m. files w q \<noteq> Some (NpyFile m))"
  from load_encoded_inputs_swallows [OF this]
  show "fst (load_encoded_inputs p q w) = None"
    and "\<exists>x evs. new_events w (snd (load_encoded_inputs p q w))
           = evs @ [Log ERROR ''Error loading encoded inputs as numpy file'' [], LogException x]"
    by blast+
qed

theorem errors_logged_then_swallowed_witness:
  "fst (encode_text failing_lib args0 [SStr ''first'', SStr ''second''] empty_world)
     = Inl (OtherException ''LASER model not found'')
   \<and> fst (encode_or_load_data failing_lib args0 loader0 empty_world)
     = Inr ((EmptyList, np_array [SInt 0, SInt 1]), (EmptyList, np_array [SInt 0, SInt 1]))
   \<and> files (snd (encode_or_load_data failing_lib args0 loader0 empty_world)) = files empty_world
   \<and> fst (load_encoded_inputs (encoded_train_inputs_path args0) (encoded_test_inputs_path args0)
            broken_cache_world) = None"
proof -
  have a: "encoder_type args0 = ''LASER''
      \<and> laser_encode failing_lib args0 [SStr ''first'', SStr ''second''] (parallel args0)
          = Inl (OtherException ''LASER model not found'')"
    by (simp add: args0_def failing_lib_def lib0_def)
  have b: "\<not> os_path_exists (encoded_train_inputs_path args0) empty_world"
    "\<not> os_path_exists (encoded_test_inputs_path args0) empty_world"
    by (simp_all add: os_path_exists_def empty_world_def)
  have c: "\<forall>m. files broken_cache_world (encoded_train_inputs_path args0) \<noteq> Some (NpyFile m)"
    by (simp add: args0_paths broken_cache_world_def)
  show ?thesis
    using a b c loader0_simps failing_lib_encode
      errors_logged_then_swallowed [where a=args0 and L=failing_lib
        and c="[SStr ''first'', SStr ''second'']" and c'="[SStr ''first'', SStr ''second'']"
        and e="OtherException ''LASER model not found''"
        and e'="OtherException ''LASER model not found''"
        and w=empty_world and dl=loader0 and ytr="[SInt 0, SInt 1]" and yte="[SInt 0, SInt 1]"
        and p="''none''" and q="''none''"]
      errors_logged_then_swallowed [where a=args0 and L=failing_lib
        and c="[]" and c'="[]" and e="OtherException ''x''" and e'="OtherException ''x''"
        and w=broken_cache_world and dl=loader0 and ytr="[]" and yte="[]"
        and p="encoded_train_inputs_path args0" and q="encoded_test_inputs_path args0"]
    by blast
qed

text \<open>
  C8. If exactly one of the two cache files exists, \<^verbatim>\<open>encode_or_load_data\<close> loads
  nothing; it encodes only the comments of the missing set and saves only to the
  missing path, and the file that exists stays as it is. The encoded inputs returned
  for the set whose file exists are the initial empty list \<^verbatim>\<open>[]\<close>, not the cached
  matrix. When the encoding of the missing set succeeds and its path is writable, the
  call returns that matrix next to the empty list and the matrix is in the file.
\<close>

theorem half_cached_inputs_stay_empty:
  assumes "encode_or_load_data L a dl w = (r, w')"
  shows "(os_path_exists (encoded_train_inputs_path a) w
          \<and> \<not> os_path_exists (encoded_test_inputs_path a) w \<longrightarrow>
       (\<forall>ev\<in>set (new_events w w').
            \<not> is_np_load ev \<and> (\<forall>m. ev \<noteq> NpSave (encoded_train_inputs_path a) m)
            \<and> (is_encoding ev \<longrightarrow>
                 (\<exists>c. dl ''BODY'' ''test'' = Inr c
                    \<and> (ev = LaserEncode c (parallel a) \<or> ev = LSIFitTransform 10000 c))))
       \<and> files w' (encoded_train_inputs_path a) = files w (encoded_train_inputs_path a)
       \<and> (\<forall>x y z. r = Inr ((x, y), z) \<longrightarrow> x = EmptyList)
       \<and> (\<forall>c m ytr yte.
             dl ''BODY'' ''test'' = Inr c \<and> fst (encode_text L a c w) = Inr m
             \<and> writable w (encoded_test_inputs_path a)
             \<and> dl ''REMOVED'' ''train'' = Inr ytr \<and> dl ''REMOVED'' ''test'' = Inr yte \<longrightarrow>
             r = Inr ((EmptyList, np_array ytr), (Array m, np_array yte))
             \<and> files w' = (files w)(encoded_test_inputs_path a \<mapsto> NpyFile m)))
   \<and> (\<not> os_path_exists (encoded_train_inputs_path a) w
          \<and> os_path_exists (encoded_test_inputs_path a) w \<longrightarrow>
       (\<forall>ev\<in>set (new_events w w').
            \<not> is_np_load ev \<and> (\<forall>m. ev \<noteq> NpSave (encoded_test_inputs_path a) m)
            \<and> (is_encoding ev \<longrightarrow>
                 (\<exists>c. dl ''BODY'' ''train'' = Inr c
                    \<and> (ev = LaserEncode c (parallel a) \<or> ev = LSIFitTransform 10000 c))))
       \<and> files w' (encoded_test_inputs_path a) = files w (encoded_test_inputs_path a)
       \<and> (\<forall>x y z. r = Inr (z, (x, y)) \<longrightarrow> x = EmptyList)
       \<and> (\<forall>c m ytr yte.
             dl ''BODY'' ''train'' = Inr c \<and> fst (encode_text L a c w) = Inr m
             \<and> writable w (encoded_train_inputs_path a)
             \<and> dl ''REMOVED'' ''train'' = Inr ytr \<and> dl ''REMOVED'' ''test'' = Inr yte \<longrightarrow>
             r = Inr ((Array m, np_array ytr), (EmptyList, np_array yte))
             \<and> files w' = (files w)(encoded_train_inputs_path a \<mapsto> NpyFile m)))"
proof (rule conjI; rule impI; elim conjE)
  assume "os_path_exists (encoded_train_inputs_path a) w"
    "\<not> os_path_exists (encoded_test_inputs_path a) w"
  then show "(\<forall>ev\<in>set (new_events w w').
            \<not> is_np_load ev \<and> (\<forall>m. ev \<noteq> NpSave (encoded_train_inputs_path a) m)
            \<and> (is_encoding ev \<longrightarrow>
                 (\<exists>c. dl ''BODY'' ''test'' = Inr c
                    \<and> (ev = LaserEncode c (parallel a) \<or> ev = LSIFitTransform 10000 c))))
       \<and> files w' (encoded_train_inputs_path a) = files w (encoded_train_inputs_path a)
       \<and> (\<forall>x y z. r = Inr ((x, y), z) \<longrightarrow> x = EmptyList)
       \<and> (\<forall>c m ytr yte.
             dl ''BODY'' ''test'' = Inr c \<and> fst (encode_text L a c w) = Inr m
             \<and> writable w (encoded_test_inputs_path a)
             \<and> dl ''REMOVED'' ''train'' = Inr ytr \<and> dl ''REMOVED'' ''test'' = Inr yte \<longrightarrow>
             r = Inr ((EmptyList, np_array ytr), (Array m, np_array yte))
             \<and> files w' = (files w)(encoded_test_inputs_path a \<mapsto> NpyFile m))"
    using assms by (rule only_test_missing)
next
  assume "\<not> os_path_exists (encoded_train_inputs_path a) w"
    "os_path_exists (encoded_test_inputs_path a) w"
  then show "(\<forall>ev\<in>set (new_events w w').
            \<not> is_np_load ev \<and> (\<forall>m. ev \<noteq> NpSave (encoded_test_inputs_path a) m)
            \<and> (is_encoding ev \<longrightarrow>
                 (\<exists>c. dl ''BODY'' ''train'' = Inr c
                    \<and> (ev = LaserEncode c (parallel a) \<or> ev = LSIFitTransform 10000 c))))
       \<and> files w' (encoded_test_inputs_path a) = files w (encoded_test_inputs_path a)
       \<and> (\<forall>x y z. r = Inr (z, (x, y)) \<longrightarrow> x = EmptyList)
       \<and> (\<forall>c m ytr yte.
             dl ''BODY'' ''train'' = Inr c \<and> fst (encode_text L a c w) = Inr m
             \<and> writable w (encoded_train_inputs_path a)
             \<and> dl ''REMOVED'' ''train'' = Inr ytr \<and> dl ''REMOVED'' ''test'' = Inr yte \<longrightarrow>
             r = Inr ((Array m, np_array ytr), (EmptyList, np_array yte))
             \<and> files w' = (files w)(encoded_train_inputs_path a \<mapsto> NpyFile m))"
    using assms by (rule only_train_missing)
qed

theorem half_cached_inputs_stay_empty_witness:
  "os_path_exists (encoded_train_inputs_path args0) train_only_world
   \<and> \<not> os_path_exists (encoded_test_inputs_path args0) train_only_world
   \<and> fst (encode_or_load_data lib0 args0 loader0 train_only_world)
       = Inr ((EmptyList, np_array [SInt 0, SInt 1]),
              (Array (NdArray [2, 1] [SFloat 0, SFloat 0]), np_array [SInt 0, SInt 1]))
   \<and> files train_only_world (encoded_train_inputs_path args0) = Some (NpyFile matrix0)
   \<and> \<not> os_path_exists (encoded_train_inputs_path args0) test_only_world
   \<and> os_path_exists (encoded_test_inputs_path args0) test_only_world
   \<and> fst (encode_or_load_data lib0 args0 loader0 test_only_world)
       = Inr ((Array (NdArray [2, 1] [SFloat 0, SFloat 0]), np_array [SInt 0, SInt 1]),
              (EmptyList, np_array [SInt 0, SInt 1]))
   \<and> files test_only_world (encoded_test_inputs_path args0) = Some (NpyFile matrix0)"
proof -
  let ?R1 = "encode_or_load_data lib0 args0 loader0 train_only_world"
  let ?R2 = "encode_or_load_data lib0 args0 loader0 test_only_world"
  have e1: "os_path_exists (encoded_train_inputs_path args0) train_only_world"
    "\<not> os_path_exists (encoded_test_inputs_path args0) train_only_world"
    "files train_only_world (encoded_train_inputs_path args0) = Some (NpyFile matrix0)"
    "writable train_only_world (encoded_test_inputs_path args0)"
    by (simp_all add: args0_paths os_path_exists_def train_only_world_def)
  have e2: "\<not> os_path_exists (encoded_train_inputs_path args0) test_only_world"
    "os_path_exists (encoded_test_inputs_path args0) test_only_world"
    "files test_only_world (encoded_test_inputs_path args0) = Some (NpyFile matrix0)"
    "writable test_only_world (encoded_train_inputs_path args0)"
    by (simp_all add: args0_paths os_path_exists_def test_only_world_def)
  have enc: "\<And>w. fst (encode_text lib0 args0 [SStr ''first'', SStr ''second''] w)
      = Inr (NdArray [2, 1] [SFloat 0, SFloat 0])"
    by (simp add: lib0_encode)
  have "fst ?R1 = Inr ((EmptyList, np_array [SInt 0, SInt 1]),
              (Array (NdArray [2, 1] [SFloat 0, SFloat 0]), np_array [SInt 0, SInt 1]))"
    using half_cached_inputs_stay_empty [of lib0 args0 loader0 train_only_world "fst ?R1" "snd ?R1"]
      e1 enc loader0_simps by simp
  moreover have "fst ?R2 = Inr ((Array (NdArray [2, 1] [SFloat 0, SFloat 0]), np_array [SInt 0, SInt 1]),
              (EmptyList, np_array [SInt 0, SInt 1]))"
    using half_cached_inputs_stay_empty [of lib0 args0 loader0 test_only_world "fst ?R2" "snd ?R2"]
      e2 enc loader0_simps by simp
  ultimately show ?thesis using e1 e2 by simp
qed

text \<open>
  C6, as amended. When both files hold an array, \<^verbatim>\<open>load_encoded_inputs\<close> returns exactly
  the two stored arrays, so each result has the shape (sample count x width) of the
  array in its file: the width is 1024, and the same for both, only if the cached
  arrays are so.
\<close>

theorem load_encoded_inputs_returns_what_is_stored:
  assumes "files w p = Some (NpyFile tr)" and "files w q = Some (NpyFile te)"
  shows "fst (load_encoded_inputs p q w) = Some (tr, te)"
  using assms by (simp add: load_encoded_inputs_iff)

theorem load_encoded_inputs_returns_what_is_stored_witness:
  "files cached_world ''work/training_LASER-comments.npy'' = Some (NpyFile matrix0)
   \<and> files cached_world ''work/test_LASER-comments.npy'' = Some (NpyFile matrix0)
   \<and> fst (load_encoded_inputs ''work/training_LASER-comments.npy''
            ''work/test_LASER-comments.npy'' cached_world) = Some (matrix0, matrix0)"
proof -
  have f: "files cached_world ''work/training_LASER-comments.npy'' = Some (NpyFile matrix0)"
    "files cached_world ''work/test_LASER-comments.npy'' = Some (NpyFile matrix0)"
    by (simp_all add: cached_world_def)
  show ?thesis
    using f load_encoded_inputs_returns_what_is_stored [OF f] by simp
qed

text \<open>
  C7 does not hold of the code. With a gold file of two rows and the predictions
  \<^verbatim>\<open>[1, 0]\<close>, \<^verbatim>\<open>save_predictions\<close> writes a tab-separated file with one row per gold
  entry and the index under \<^verbatim>\<open>ID\<close>, but its columns are \<^verbatim>\<open>BODY\<close> and \<^verbatim>\<open>REMOVED\<close>
  only: each value assigned in the loop went into a temporary row, so no prediction is in
  the file.
\<close>

theorem predictions_file_lacks_predictions:
  "fst (save_predictions lib0 args0 (NdArray [2] [SInt 1, SInt 0]) empty_world) = Inr ()
   \<and> files (snd (save_predictions lib0 args0 (NdArray [2] [SInt 1, SInt 0]) empty_world))
        ''pred.tsv''
      = Some (TableFile [CHR 0x09] [''ID'', ''BODY'', ''REMOVED'']
                [[SInt 0, SStr ''first'', SInt 0], [SInt 1, SStr ''second'', SInt 1]])"
  by (simp add: save_predictions_def lib0_def args0_def empty_world_def frame0_def
      select_columns_def iloc_setitem_def iloc_def to_csv_def Let_def upt_rec)

text \<open>
  C3. \<^verbatim>\<open>make_classifier_and_predict\<close> dispatches on the string \<^verbatim>\<open>clf_name\<close>: for
  \<^verbatim>\<open>"randomforest"\<close> the classifier is the random forest, for \<^verbatim>\<open>"svc"\<close> the SVM and
  for \<^verbatim>\<open>"mlp"\<close> the neural network with hidden layers (512, 128), each with the
  parameters of the source. The only classifier ever fitted in the call is that one, on
  the training set (and it is fitted whenever the inputs are arrays), and a classifier
  that the call returns is exactly that one, fitted on the training set.
\<close>

theorem classifier_selected_by_name:
  assumes "make_classifier_and_predict L a (x_train, y_train) (x_test, y_test)
             names seed clf_name w = (r, w')"
  shows "(clf_name = ''randomforest'' \<longrightarrow>
       (\<forall>ev\<in>set (new_events w w'). is_fit ev \<longrightarrow>
           ev = Fit (RandomForestClassifier 100 1000 100 8 seed True) x_train y_train)
       \<and> (\<forall>mtr mte. x_train = Array mtr \<and> x_test = Array mte \<longrightarrow>
           Fit (RandomForestClassifier 100 1000 100 8 seed True) x_train y_train
             \<in> set (new_events w w'))
       \<and> (\<forall>clf. r = Inr clf \<longrightarrow>
             clf = \<lparr>params = RandomForestClassifier 100 1000 100 8 seed True,
                    fitted_on = Some (x_train, y_train)\<rparr>))
   \<and> (clf_name = ''svc'' \<longrightarrow>
       (\<forall>ev\<in>set (new_events w w'). is_fit ev \<longrightarrow>
           ev = Fit (SVC ''auto'' seed True) x_train y_train)
       \<and> (\<forall>mtr mte. x_train = Array mtr \<and> x_test = Array mte \<longrightarrow>
           Fit (SVC ''auto'' seed True) x_train y_train \<in> set (new_events w w'))
       \<and> (\<forall>clf. r = Inr clf \<longrightarrow>
             clf = \<lparr>params = SVC ''auto'' seed True, fitted_on = Some (x_train, y_train)\<rparr>))
   \<and> (clf_name = ''mlp'' \<longrightarrow>
       (\<forall>ev\<in>set (new_events w w'). is_fit ev \<longrightarrow>
           ev = Fit (MLPClassifier [512, 128] ''relu'' True seed) x_train y_train)
       \<and> (\<forall>mtr mte. x_train = Array mtr \<and> x_test = Array mte \<longrightarrow>
           Fit (MLPClassifier [512, 128] ''relu'' True seed) x_train y_train
             \<in> set (new_events w w'))
       \<and> (\<forall>clf. r = Inr clf \<longrightarrow>
             clf = \<lparr>params = MLPClassifier [512, 128] ''relu'' True seed,
                    fitted_on = Some (x_train, y_train)\<rparr>))"
proof -
  have sel: "(\<forall>ev\<in>set (new_events w w'). is_fit ev \<longrightarrow> ev = Fit est x_train y_train)
       \<and> (\<forall>mtr mte. x_train = Array mtr \<and> x_test = Array mte \<longrightarrow>
             Fit est x_train y_train \<in> set (new_events w w'))
       \<and> (\<forall>clf. r = Inr clf \<longrightarrow> clf = \<lparr>params = est, fitted_on = Some (x_train, y_train)\<rparr>)"
    if "clf_name = ''randomforest'' \<and> est = RandomForestClassifier 100 1000 100 8 seed True
      \<or> clf_name = ''svc'' \<and> est = SVC ''auto'' seed True
      \<or> clf_name = ''mlp'' \<and> est = MLPClassifier [512, 128] ''relu'' True seed" for est
  proof -
    from selected_run [OF assms that] obtain evs where evs: "trace w' = trace w @ evs"
      "\<forall>ev\<in>set evs. is_fit ev \<longrightarrow> ev = Fit est x_train y_train"
      "\<forall>mtr mte. x_train = Array mtr \<and> x_test = Array mte \<longrightarrow> Fit est x_train y_train \<in> set evs"
      "\<forall>clf. r = Inr clf \<longrightarrow> clf = \<lparr>params = est, fitted_on = Some (x_train, y_train)\<rparr>"
      by blast
    have "new_events w w' = evs" using evs(1) by simp
    with evs(2,3,4) show ?thesis by simp
  qed
  show ?thesis
    using sel [of "RandomForestClassifier 100 1000 100 8 seed True"]
      sel [of "SVC ''auto'' seed True"] sel [of "MLPClassifier [512, 128] ''relu'' True seed"]
    by simp
qed

theorem classifier_selected_by_name_witness:
  "fst (make_classifier_and_predict lib0 args0 train0 test0 [''kept'', ''removed''] 7
          ''randomforest'' empty_world)
     = Inr \<lparr>params = RandomForestClassifier 100 1000 100 8 7 True, fitted_on = Some train0\<rparr>
   \<and> fst (make_classifier_and_predict lib0 args0 train0 test0 [''kept'', ''removed''] 7
          ''svc'' empty_world)
     = Inr \<lparr>params = SVC ''auto'' 7 True, fitted_on = Some train0\<rparr>
   \<and> fst (make_classifier_and_predict lib0 args0 train0 test0 [''kept'', ''removed''] 7
          ''mlp'' empty_world)
     = Inr \<lparr>params = MLPClassifier [512, 128] ''relu'' True 7, fitted_on = Some train0\<rparr>"
proof -
  let ?run = "\<lambda>name. make_classifier_and_predict lib0 args0 train0 test0 [''kept'', ''removed'']
     7 name empty_world"
  have t: "train0 = (fst train0, snd train0)" "test0 = (fst test0, snd test0)" by simp_all
  have r: "\<And>name. make_classifier_and_predict lib0 args0 (fst train0, snd train0)
      (fst test0, snd test0) [''kept'', ''removed''] 7 name empty_world
      = (fst (?run name), snd (?run name))"
    by simp
  obtain c1 where c1: "fst (?run ''randomforest'') = Inr c1" using run0 [of "''randomforest''"] by simp
  obtain c2 where c2: "fst (?run ''svc'') = Inr c2" using run0 [of "''svc''"] by simp
  obtain c3 where c3: "fst (?run ''mlp'') = Inr c3" using run0 [of "''mlp''"] by simp
  show ?thesis
    using classifier_selected_by_name [OF r [of "''randomforest''"]]
      classifier_selected_by_name [OF r [of "''svc''"]]
      classifier_selected_by_name [OF r [of "''mlp''"]] c1 c2 c3
    by simp
qed

text \<open>
  C4. The steps of \<^verbatim>\<open>make_classifier_and_predict\<close> run in the stated order, in every
  invocation. The library calls made are an initial part of: fit the selected classifier
  on the training set, save the model, then the evaluation; for a name outside the three
  there is no call at all. Saving is attempted only after \<^verbatim>\<open>fit\<close> has succeeded, and the
  evaluation starts only after the save has succeeded, with the fitted classifier in the
  model file (unless that path is the predictions file, which the evaluation overwrites).
  When the fit and the save succeed, the world in which the evaluation starts holds
  exactly that fitted classifier in the model file, the evaluation is that of this same
  classifier on the test set, and the call returns this classifier when the evaluation
  returns. In every invocation of \<^verbatim>\<open>eval_model\<close> the calls are an initial part of: predict,
  score and report on the test set, the ROC metrics, read the gold file, write the
  predictions file; when it returns, the prediction, the score and the report are those
  of the given classifier on the test set, the score is logged and the report printed
  before the gold file is read, and the predictions file is written last, from the gold
  frame (what it holds is the matter of C7).
\<close>

theorem pipeline_steps_in_order:
  assumes "make_classifier_and_predict L a (x_train, y_train) (x_test, y_test)
             names seed clf_name w = (r, w')"
  shows "(\<exists>est. prefix (calls (new_events w w'))
                  (stated_pipeline a est (x_train, y_train) (x_test, y_test)))
     \<and> (\<forall>clf. r = Inr clf \<longrightarrow>
           calls (new_events w w')
             = stated_pipeline a (params clf) (x_train, y_train) (x_test, y_test))
     \<and> prefix (calls (new_events w0 (snd (eval_model L a fitted x_test y_test names w0))))
          (stated_evaluation a x_test y_test)
     \<and> (\<forall>u. fst (eval_model L a fitted x_test y_test names w0) = Inr u \<longrightarrow>
           calls (new_events w0 (snd (eval_model L a fitted x_test y_test names w0)))
             = stated_evaluation a x_test y_test)
     \<and> (clf_name \<notin> {''randomforest'', ''svc'', ''mlp''} \<longrightarrow> calls (new_events w w') = [])
     \<and> (\<forall>est.
          clf_name = ''randomforest'' \<and> est = RandomForestClassifier 100 1000 100 8 seed True
          \<or> clf_name = ''svc'' \<and> est = SVC ''auto'' seed True
          \<or> clf_name = ''mlp'' \<and> est = MLPClassifier [512, 128] ''relu'' True seed \<longrightarrow>
          prefix (calls (new_events w w'))
            (stated_pipeline a est (x_train, y_train) (x_test, y_test))
          \<and> (1 < length (calls (new_events w w')) \<longrightarrow> clf_fit L est x_train y_train = None)
          \<and> (2 < length (calls (new_events w w')) \<longrightarrow>
               writable w (os_path_join (workdir a) (clf_save_name a @ ''_'' @ clf_type a @ ''.pkl''))
               \<and> (files w' (os_path_join (workdir a) (clf_save_name a @ ''_'' @ clf_type a @ ''.pkl''))
                     = Some (PklFile \<lparr>params = est, fitted_on = Some (x_train, y_train)\<rparr>)
                   \<or> os_path_join (workdir a) (clf_save_name a @ ''_'' @ clf_type a @ ''.pkl'')
                     = predictions_file a))
          \<and> (\<forall>sx st. shape_of x_train = Inr sx \<and> shape_of x_test = Inr st
                 \<and> clf_fit L est x_train y_train = None
                 \<and> writable w (os_path_join (workdir a) (clf_save_name a @ ''_'' @ clf_type a @ ''.pkl''))
               \<longrightarrow> (\<exists>w5. new_events w w5 =
                   [Log DEBUG ''x-train: {} | y-train: {}'' [AShape sx, AShape (shape y_train)],
                    Log DEBUG ''x-test: {} | y-test: {}'' [AShape st, AShape (shape y_test)],
                    Log DEBUG ''Target names: {}'' [ANames names],
                    Fit est x_train y_train,
                    JoblibDump (os_path_join (workdir a) (clf_save_name a @ ''_'' @ clf_type a @ ''.pkl''))]
               \<and> files w5 = (files w)
                    (os_path_join (workdir a) (clf_save_name a @ ''_'' @ clf_type a @ ''.pkl'')
                       \<mapsto> PklFile \<lparr>params = est, fitted_on = Some (x_train, y_train)\<rparr>)
               \<and> writable w5 = writable w
               \<and> w' = snd (eval_model L a \<lparr>params = est, fitted_on = Some (x_train, y_train)\<rparr>
                              x_test y_test names w5)
               \<and> r = (case fst (eval_model L a
                                  \<lparr>params = est, fitted_on = Some (x_train, y_train)\<rparr>
                                  x_test y_test names w5) of
                        Inl e \<Rightarrow> Inl e
                      | Inr u \<Rightarrow> Inr \<lparr>params = est, fitted_on = Some (x_train, y_train)\<rparr>)))
          \<and> (\<forall>clf. r = Inr clf \<longrightarrow>
                 clf = \<lparr>params = est, fitted_on = Some (x_train, y_train)\<rparr>))
     \<and> (\<forall>u. fst (eval_model L a fitted x_test y_test names w0) = Inr u \<longrightarrow>
          (\<exists>y_pred score report y_score roc_score frame gold.
              clf_predict L fitted x_test = Inr y_pred
            \<and> clf_score L fitted x_test y_test = Inr score
            \<and> classification_report L y_test y_pred names = Inr report
            \<and> clf_predict_proba L fitted x_test = Inr y_score
            \<and> roc_auc_score L y_test y_score = Inr roc_score
            \<and> read_csv L (files w0) (test_file a) = Inr frame
            \<and> select_columns frame [''BODY'', ''REMOVED''] = Inr gold
            \<and> new_events w0 (snd (eval_model L a fitted x_test y_test names w0))
                = [Predict x_test, Log DEBUG ''Predictions: {}'' [AShape (shape y_pred)],
                   Score x_test y_test, Log INFO ''Test score: {}'' [AFloat score],
                   ClassificationReport y_test, Print report,
                   PredictProba x_test,
                   RocAucScore, Log INFO ''ROC AUC score: {}'' [AFloat roc_score], RocCurves,
                   ReadCsv (test_file a), ToCsv (predictions_file a)]
            \<and> files (snd (eval_model L a fitted x_test y_test names w0))
                = (files w0)(predictions_file a \<mapsto>
                    TableFile [CHR 0x09] (''ID'' # map fst (df_cols gold))
                      (map (\<lambda>i. df_index gold ! i # map (\<lambda>(c, vs). vs ! i) (df_cols gold))
                         [0..<length (df_index gold)]))))"
proof -
  have c34: "prefix (calls (new_events w0 (snd (eval_model L a fitted x_test y_test names w0))))
          (stated_evaluation a x_test y_test)
     \<and> (\<forall>u. fst (eval_model L a fitted x_test y_test names w0) = Inr u \<longrightarrow>
           calls (new_events w0 (snd (eval_model L a fitted x_test y_test names w0)))
             = stated_evaluation a x_test y_test)"
  proof -
    obtain evs where evs: "trace (snd (eval_model L a fitted x_test y_test names w0)) = trace w0 @ evs"
      "prefix (calls evs) (stated_evaluation a x_test y_test)"
      "\<forall>u. fst (eval_model L a fitted x_test y_test names w0) = Inr u \<longrightarrow>
           calls evs = stated_evaluation a x_test y_test"
      using eval_model_trace [of L a fitted x_test y_test names w0] by blast
    have "new_events w0 (snd (eval_model L a fitted x_test y_test names w0)) = evs"
      using evs(1) by simp
    with evs(2,3) show ?thesis by simp
  qed
  have c5: "(clf_name \<notin> {''randomforest'', ''svc'', ''mlp''} \<longrightarrow> calls (new_events w w') = [])"
  proof
    assume "clf_name \<notin> {''randomforest'', ''svc'', ''mlp''}"
    then have "clf_name \<noteq> ''randomforest''" "clf_name \<noteq> ''svc''" "clf_name \<noteq> ''mlp''"
      by simp_all
    from unselected_run [OF assms this] obtain evs where
      "trace w' = trace w @ evs" "calls evs = []"
      by blast
    then show "calls (new_events w w') = []" by simp
  qed
  have sel: "prefix (calls (new_events w w'))
            (stated_pipeline a est (x_train, y_train) (x_test, y_test))
          \<and> (1 < length (calls (new_events w w')) \<longrightarrow> clf_fit L est x_train y_train = None)
          \<and> (2 < length (calls (new_events w w')) \<longrightarrow>
               writable w (os_path_join (workdir a) (clf_save_name a @ ''_'' @ clf_type a @ ''.pkl''))
               \<and> (files w' (os_path_join (workdir a) (clf_save_name a @ ''_'' @ clf_type a @ ''.pkl''))
                     = Some (PklFile \<lparr>params = est, fitted_on = Some (x_train, y_train)\<rparr>)
                   \<or> os_path_join (workdir a) (clf_save_name a @ ''_'' @ clf_type a @ ''.pkl'')
                     = predictions_file a))
          \<and> (\<forall>sx st. shape_of x_train = Inr sx \<and> shape_of x_test = Inr st
                 \<and> clf_fit L est x_train y_train = None
                 \<and> writable w (os_path_join (workdir a) (clf_save_name a @ ''_'' @ clf_type a @ ''.pkl''))
               \<longrightarrow> (\<exists>w5. new_events w w5 =
                   [Log DEBUG ''x-train: {} | y-train: {}'' [AShape sx, AShape (shape y_train)],
                    Log DEBUG ''x-test: {} | y-test: {}'' [AShape st, AShape (shape y_test)],
                    Log DEBUG ''Target names: {}'' [ANames names],
                    Fit est x_train y_train,
                    JoblibDump (os_path_join (workdir a) (clf_save_name a @ ''_'' @ clf_type a @ ''.pkl''))]
               \<and> files w5 = (files w)
                    (os_path_join (workdir a) (clf_save_name a @ ''_'' @ clf_type a @ ''.pkl'')
                       \<mapsto> PklFile \<lparr>params = est, fitted_on = Some (x_train, y_train)\<rparr>)
               \<and> writable w5 = writable w
               \<and> w' = snd (eval_model L a \<lparr>params = est, fitted_on = Some (x_train, y_train)\<rparr>
                              x_test y_test names w5)
               \<and> r = (case fst (eval_model L a
                                  \<lparr>params = est, fitted_on = Some (x_train, y_train)\<rparr>
                                  x_test y_test names w5) of
                        Inl e \<Rightarrow> Inl e
                      | Inr u \<Rightarrow> Inr \<lparr>params = est, fitted_on = Some (x_train, y_train)\<rparr>)))
          \<and> (\<forall>clf. r = Inr clf \<longrightarrow>
                 clf = \<lparr>params = est, fitted_on = Some (x_train, y_train)\<rparr>)"
    if s: "clf_name = ''randomforest'' \<and> est = RandomForestClassifier 100 1000 100 8 seed True
          \<or> clf_name = ''svc'' \<and> est = SVC ''auto'' seed True
          \<or> clf_name = ''mlp'' \<and> est = MLPClassifier [512, 128] ''relu'' True seed" for est
  proof -
    from selected_run [OF assms s] obtain evs where evs: "trace w' = trace w @ evs"
      "prefix (calls evs) (stated_pipeline a est (x_train, y_train) (x_test, y_test))"
      "\<forall>clf. r = Inr clf \<longrightarrow>
           clf = \<lparr>params = est, fitted_on = Some (x_train, y_train)\<rparr>
           \<and> calls evs = stated_pipeline a est (x_train, y_train) (x_test, y_test)"
      by blast
    have n: "new_events w w' = evs" using evs(1) by simp
    have a: "prefix (calls (new_events w w'))
            (stated_pipeline a est (x_train, y_train) (x_test, y_test))"
      using evs(2) n by simp
    have b: "\<forall>clf. r = Inr clf \<longrightarrow> clf = \<lparr>params = est, fitted_on = Some (x_train, y_train)\<rparr>"
      using evs(3) by blast
    note d = selected_run_detail [OF assms s]
    show ?thesis
      apply (rule conjI [OF a])
      apply (rule conjI [OF conjunct1 [OF d]])
      apply (rule conjI [OF conjunct1 [OF conjunct2 [OF d]]])
      apply (rule conjI [OF conjunct2 [OF conjunct2 [OF d]]])
      apply (rule b)
      done
  qed
  have selb: "\<forall>clf. r = Inr clf \<longrightarrow>
               calls (new_events w w')
                 = stated_pipeline a (params clf) (x_train, y_train) (x_test, y_test)"
    if s: "clf_name = ''randomforest'' \<and> est = RandomForestClassifier 100 1000 100 8 seed True
          \<or> clf_name = ''svc'' \<and> est = SVC ''auto'' seed True
          \<or> clf_name = ''mlp'' \<and> est = MLPClassifier [512, 128] ''relu'' True seed" for est
  proof -
    from selected_run [OF assms s] obtain evs where evs: "trace w' = trace w @ evs"
      "\<forall>clf. r = Inr clf \<longrightarrow>
           clf = \<lparr>params = est, fitted_on = Some (x_train, y_train)\<rparr>
           \<and> calls evs = stated_pipeline a est (x_train, y_train) (x_test, y_test)"
      by blast
    have n: "new_events w w' = evs" using evs(1) by simp
    show ?thesis using evs(2) n by auto
  qed
  have c6: "(\<forall>est.
          clf_name = ''randomforest'' \<and> est = RandomForestClassifier 100 1000 100 8 seed True
          \<or> clf_name = ''svc'' \<and> est = SVC ''auto'' seed True
          \<or> clf_name = ''mlp'' \<and> est = MLPClassifier [512, 128] ''relu'' True seed \<longrightarrow>
          prefix (calls (new_events w w'))
            (stated_pipeline a est (x_train, y_train) (x_test, y_test))
          \<and> (1 < length (calls (new_events w w')) \<longrightarrow> clf_fit L est x_train y_train = None)
          \<and> (2 < length (calls (new_events w w')) \<longrightarrow>
               writable w (os_path_join (workdir a) (clf_save_name a @ ''_'' @ clf_type a @ ''.pkl''))
               \<and> (files w' (os_path_join (workdir a) (clf_save_name a @ ''_'' @ clf_type a @ ''.pkl''))
                     = Some (PklFile \<lparr>params = est, fitted_on = Some (x_train, y_train)\<rparr>)
                   \<or> os_path_join (workdir a) (clf_save_name a @ ''_'' @ clf_type a @ ''.pkl'')
                     = predictions_file a))
          \<and> (\<forall>sx st. shape_of x_train = Inr sx \<and> shape_of x_test = Inr st
                 \<and> clf_fit L est x_train y_train = None
                 \<and> writable w (os_path_join (workdir a) (clf_save_name a @ ''_'' @ clf_type a @ ''.pkl''))
               \<longrightarrow> (\<exists>w5. new_events w w5 =
                   [Log DEBUG ''x-train: {} | y-train: {}'' [AShape sx, AShape (shape y_train)],
                    Log DEBUG ''x-test: {} | y-test: {}'' [AShape st, AShape (shape y_test)],
                    Log DEBUG ''Target names: {}'' [ANames names],
                    Fit est x_train y_train,
                    JoblibDump (os_path_join (workdir a) (clf_save_name a @ ''_'' @ clf_type a @ ''.pkl''))]
               \<and> files w5 = (files w)
                    (os_path_join (workdir a) (clf_save_name a @ ''_'' @ clf_type a @ ''.pkl'')
                       \<mapsto> PklFile \<lparr>params = est, fitted_on = Some (x_train, y_train)\<rparr>)
               \<and> writable w5 = writable w
               \<and> w' = snd (eval_model L a \<lparr>params = est, fitted_on = Some (x_train, y_train)\<rparr>
                              x_test y_test names w5)
               \<and> r = (case fst (eval_model L a
                                  \<lparr>params = est, fitted_on = Some (x_train, y_train)\<rparr>
                                  x_test y_test names w5) of
                        Inl e \<Rightarrow> Inl e
                      | Inr u \<Rightarrow> Inr \<lparr>params = est, fitted_on = Some (x_train, y_train)\<rparr>)))
          \<and> (\<forall>clf. r = Inr clf \<longrightarrow>
                 clf = \<lparr>params = est, fitted_on = Some (x_train, y_train)\<rparr>))"
  proof (intro allI impI)
    fix est
    assume "clf_name = ''randomforest'' \<and> est = RandomForestClassifier 100 1000 100 8 seed True
          \<or> clf_name = ''svc'' \<and> est = SVC ''auto'' seed True
          \<or> clf_name = ''mlp'' \<and> est = MLPClassifier [512, 128] ''relu'' True seed"
    then show "prefix (calls (new_events w w'))
            (stated_pipeline a est (x_train, y_train) (x_test, y_test))
          \<and> (1 < length (calls (new_events w w')) \<longrightarrow> clf_fit L est x_train y_train = None)
          \<and> (2 < length (calls (new_events w w')) \<longrightarrow>
               writable w (os_path_join (workdir a) (clf_save_name a @ ''_'' @ clf_type a @ ''.pkl''))
               \<and> (files w' (os_path_join (workdir a) (clf_save_name a @ ''_'' @ clf_type a @ ''.pkl''))
                     = Some (PklFile \<lparr>params = est, fitted_on = Some (x_train, y_train)\<rparr>)
                   \<or> os_path_join (workdir a) (clf_save_name a @ ''_'' @ clf_type a @ ''.pkl'')
                     = predictions_file a))
          \<and> (\<forall>sx st. shape_of x_train = Inr sx \<and> shape_of x_test = Inr st
                 \<and> clf_fit L est x_train y_train = None
                 \<and> writable w (os_path_join (workdir a) (clf_save_name a @ ''_'' @ clf_type a @ ''.pkl''))
               \<longrightarrow> (\<exists>w5. new_events w w5 =
                   [Log DEBUG ''x-train: {} | y-train: {}'' [AShape sx, AShape (shape y_train)],
                    Log DEBUG ''x-test: {} | y-test: {}'' [AShape st, AShape (shape y_test)],
                    Log DEBUG ''Target names: {}'' [ANames names],
                    Fit est x_train y_train,
                    JoblibDump (os_path_join (workdir a) (clf_save_name a @ ''_'' @ clf_type a @ ''.pkl''))]
               \<and> files w5 = (files w)
                    (os_path_join (workdir a) (clf_save_name a @ ''_'' @ clf_type a @ ''.pkl'')
                       \<mapsto> PklFile \<lparr>params = est, fitted_on = Some (x_train, y_train)\<rparr>)
               \<and> writable w5 = writable w
               \<and> w' = snd (eval_model L a \<lparr>params = est, fitted_on = Some (x_train, y_train)\<rparr>
                              x_test y_test names w5)
               \<and> r = (case fst (eval_model L a
                                  \<lparr>params = est, fitted_on = Some (x_train, y_train)\<rparr>
                                  x_test y_test names w5) of
                        Inl e \<Rightarrow> Inl e
                      | Inr u \<Rightarrow> Inr \<lparr>params = est, fitted_on = Some (x_train, y_train)\<rparr>)))
          \<and> (\<forall>clf. r = Inr clf \<longrightarrow>
                 clf = \<lparr>params = est, fitted_on = Some (x_train, y_train)\<rparr>)"
      by (rule sel)
  qed
  have c12: "(\<exists>est. prefix (calls (new_events w w'))
                  (stated_pipeline a est (x_train, y_train) (x_test, y_test)))
     \<and> (\<forall>clf. r = Inr clf \<longrightarrow>
           calls (new_events w w')
             = stated_pipeline a (params clf) (x_train, y_train) (x_test, y_test))"
  proof (cases "clf_name = ''randomforest'' \<or> clf_name = ''svc'' \<or> clf_name = ''mlp''")
    case True
    then obtain est where s:
      "clf_name = ''randomforest'' \<and> est = RandomForestClassifier 100 1000 100 8 seed True
          \<or> clf_name = ''svc'' \<and> est = SVC ''auto'' seed True
          \<or> clf_name = ''mlp'' \<and> est = MLPClassifier [512, 128] ''relu'' True seed"
      by blast
    have "prefix (calls (new_events w w'))
            (stated_pipeline a est (x_train, y_train) (x_test, y_test))"
      using sel [OF s] by (rule conjunct1)
    then have "\<exists>est. prefix (calls (new_events w w'))
                  (stated_pipeline a est (x_train, y_train) (x_test, y_test))"
      by (rule exI)
    then show ?thesis using selb [OF s] by (rule conjI)
  next
    case False
    then have "clf_name \<notin> {''randomforest'', ''svc'', ''mlp''}" by simp
    with c5 have e: "calls (new_events w w') = []" by simp
    from False have "clf_name \<noteq> ''randomforest''" "clf_name \<noteq> ''svc''" "clf_name \<noteq> ''mlp''"
      by simp_all
    from unselected_run [OF assms this] obtain x where "r = Inl x" by blast
    with e show ?thesis by simp
  qed
  have c7: "(\<forall>u. fst (eval_model L a fitted x_test y_test names w0) = Inr u \<longrightarrow>
          (\<exists>y_pred score report y_score roc_score frame gold.
              clf_predict L fitted x_test = Inr y_pred
            \<and> clf_score L fitted x_test y_test = Inr score
            \<and> classification_report L y_test y_pred names = Inr report
            \<and> clf_predict_proba L fitted x_test = Inr y_score
            \<and> roc_auc_score L y_test y_score = Inr roc_score
            \<and> read_csv L (files w0) (test_file a) = Inr frame
            \<and> select_columns frame [''BODY'', ''REMOVED''] = Inr gold
            \<and> new_events w0 (snd (eval_model L a fitted x_test y_test names w0))
                = [Predict x_test, Log DEBUG ''Predictions: {}'' [AShape (shape y_pred)],
                   Score x_test y_test, Log INFO ''Test score: {}'' [AFloat score],
                   ClassificationReport y_test, Print report,
                   PredictProba x_test,
                   RocAucScore, Log INFO ''ROC AUC score: {}'' [AFloat roc_score], RocCurves,
                   ReadCsv (test_file a), ToCsv (predictions_file a)]
            \<and> files (snd (eval_model L a fitted x_test y_test names w0))
                = (files w0)(predictions_file a \<mapsto>
                    TableFile [CHR 0x09] (''ID'' # map fst (df_cols gold))
                      (map (\<lambda>i. df_index gold ! i # map (\<lambda>(c, vs). vs ! i) (df_cols gold))
                         [0..<length (df_index gold)]))))"
  proof (intro allI impI)
    fix u assume "fst (eval_model L a fitted x_test y_test names w0) = Inr u"
    then show "(\<exists>y_pred score report y_score roc_score frame gold.
              clf_predict L fitted x_test = Inr y_pred
            \<and> clf_score L fitted x_test y_test = Inr score
            \<and> classification_report L y_test y_pred names = Inr report
            \<and> clf_predict_proba L fitted x_test = Inr y_score
            \<and> roc_auc_score L y_test y_score = Inr roc_score
            \<and> read_csv L (files w0) (test_file a) = Inr frame
            \<and> select_columns frame [''BODY'', ''REMOVED''] = Inr gold
            \<and> new_events w0 (snd (eval_model L a fitted x_test y_test names w0))
                = [Predict x_test, Log DEBUG ''Predictions: {}'' [AShape (shape y_pred)],
                   Score x_test y_test, Log INFO ''Test score: {}'' [AFloat score],
                   ClassificationReport y_test, Print report,
                   PredictProba x_test,
                   RocAucScore, Log INFO ''ROC AUC score: {}'' [AFloat roc_score], RocCurves,
                   ReadCsv (test_file a), ToCsv (predictions_file a)]
            \<and> files (snd (eval_model L a fitted x_test y_test names w0))
                = (files w0)(predictions_file a \<mapsto>
                    TableFile [CHR 0x09] (''ID'' # map fst (df_cols gold))
                      (map (\<lambda>i. df_index gold ! i # map (\<lambda>(c, vs). vs ! i) (df_cols gold))
                         [0..<length (df_index gold)])))"
      by (rule eval_model_returns)
  qed
  show ?thesis
    apply (rule conjI [OF conjunct1 [OF c12]])
    apply (rule conjI [OF conjunct2 [OF c12]])
    apply (rule conjI [OF conjunct1 [OF c34]])
    apply (rule conjI [OF conjunct2 [OF c34]])
    apply (rule conjI [OF c5])
    apply (rule conjI [OF c6])
    apply (rule c7)
    done
qed


theorem pipeline_steps_in_order_witness:
  "calls (new_events empty_world
      (snd (make_classifier_and_predict lib0 args0 train0 test0 [''kept'', ''removed''] 7
              ''mlp'' empty_world)))
     = [Fit (MLPClassifier [512, 128] ''relu'' True 7) (fst train0) (snd train0),
        JoblibDump ''work/model_mlp.pkl'',
        Predict (fst test0), Score (fst test0) (snd test0), ClassificationReport (snd test0),
        PredictProba (fst test0), RocAucScore, RocCurves, ReadCsv ''test.csv'',
        ToCsv ''pred.tsv'']
   \<and> files (snd (make_classifier_and_predict lib0 args0 train0 test0 [''kept'', ''removed''] 7
              ''mlp'' empty_world)) ''work/model_mlp.pkl''
     = Some (PklFile \<lparr>params = MLPClassifier [512, 128] ''relu'' True 7,
                       fitted_on = Some train0\<rparr>)
   \<and> calls (new_events empty_world
      (snd (make_classifier_and_predict lib0 args0 train0 test0 [''kept'', ''removed''] 7
              ''knn'' empty_world))) = []
   \<and> calls (new_events empty_world
      (snd (eval_model lib0 args0 clf0 (fst test0) (snd test0) [''kept'', ''removed'']
              empty_world)))
     = [Predict (fst test0), Score (fst test0) (snd test0), ClassificationReport (snd test0),
        PredictProba (fst test0), RocAucScore, RocCurves, ReadCsv ''test.csv'',
        ToCsv ''pred.tsv'']
   \<and> files (snd (eval_model lib0 args0 clf0 (fst test0) (snd test0) [''kept'', ''removed'']
              empty_world)) ''pred.tsv''
     = Some (TableFile [CHR 0x09] [''ID'', ''BODY'', ''REMOVED'']
               [[SInt 0, SStr ''first'', SInt 0], [SInt 1, SStr ''second'', SInt 1]])"
proof -
  let ?run = "\<lambda>name. make_classifier_and_predict lib0 args0 train0 test0 [''kept'', ''removed'']
     7 name empty_world"
  let ?ev = "eval_model lib0 args0 clf0 (fst test0) (snd test0) [''kept'', ''removed'']
     empty_world"
  let ?mlp = "MLPClassifier [512, 128] ''relu'' True 7"
  have r: "\<And>name. make_classifier_and_predict lib0 args0 (fst train0, snd train0)
      (fst test0, snd test0) [''kept'', ''removed''] 7 name empty_world
      = (fst (?run name), snd (?run name))"
    by simp
  note t1 = pipeline_steps_in_order [OF r [of "''mlp''"], where fitted=clf0
      and ?w0.0=empty_world]
  note t2 = pipeline_steps_in_order [OF r [of "''knn''"], where fitted=clf0
      and ?w0.0=empty_world]
  have c: "fst (?run ''mlp'') = Inr (fitted0 ?mlp)"
    using run0 [of "''mlp''"] by simp
  have p: "stated_pipeline args0 ?mlp (fst train0, snd train0) (fst test0, snd test0)
     = [Fit ?mlp (fst train0) (snd train0),
        JoblibDump ''work/model_mlp.pkl'',
        Predict (fst test0), Score (fst test0) (snd test0), ClassificationReport (snd test0),
        PredictProba (fst test0), RocAucScore, RocCurves, ReadCsv ''test.csv'',
        ToCsv ''pred.tsv'']"
    by (simp add: stated_pipeline_def stated_evaluation_def args0_def os_path_join_def)
  have q: "stated_evaluation args0 (fst test0) (snd test0)
     = [Predict (fst test0), Score (fst test0) (snd test0), ClassificationReport (snd test0),
        PredictProba (fst test0), RocAucScore, RocCurves, ReadCsv ''test.csv'',
        ToCsv ''pred.tsv'']"
    by (simp add: stated_evaluation_def args0_def)
  have sp: "os_path_join (workdir args0) (clf_save_name args0 @ ''_'' @ clf_type args0 @ ''.pkl'')
     = ''work/model_mlp.pkl''" "predictions_file args0 = ''pred.tsv''"
    "test_file args0 = ''test.csv''"
    by (simp_all add: args0_def os_path_join_def)
  have A: "calls (new_events empty_world (snd (?run ''mlp''))) =
      stated_pipeline args0 ?mlp (fst train0, snd train0) (fst test0, snd test0)"
    using t1 [THEN conjunct2, THEN conjunct1] c by (simp add: fitted0_def)
  have sel: "''mlp'' = ''randomforest'' \<and> ?mlp = RandomForestClassifier 100 1000 100 8 7 True
          \<or> ''mlp'' = ''svc'' \<and> ?mlp = SVC ''auto'' 7 True
          \<or> ''mlp'' = ''mlp'' \<and> ?mlp = MLPClassifier [512, 128] ''relu'' True 7"
    by simp
  have six: "2 < length (calls (new_events empty_world (snd (?run ''mlp'')))) \<longrightarrow>
       writable empty_world (os_path_join (workdir args0)
          (clf_save_name args0 @ ''_'' @ clf_type args0 @ ''.pkl''))
       \<and> (files (snd (?run ''mlp'')) (os_path_join (workdir args0)
              (clf_save_name args0 @ ''_'' @ clf_type args0 @ ''.pkl''))
             = Some (PklFile \<lparr>params = ?mlp, fitted_on = Some (fst train0, snd train0)\<rparr>)
           \<or> os_path_join (workdir args0)
              (clf_save_name args0 @ ''_'' @ clf_type args0 @ ''.pkl'') = predictions_file args0)"
    using t1 [THEN conjunct2, THEN conjunct2, THEN conjunct2, THEN conjunct2, THEN conjunct2,
        THEN conjunct1, THEN spec, of ?mlp, THEN mp, OF sel,
        THEN conjunct2, THEN conjunct2, THEN conjunct1] .
  have B: "files (snd (?run ''mlp'')) ''work/model_mlp.pkl''
     = Some (PklFile \<lparr>params = ?mlp, fitted_on = Some train0\<rparr>)"
    using six unfolding A p sp by simp
  have C: "calls (new_events empty_world (snd (?run ''knn''))) = []"
    using t2 [THEN conjunct2, THEN conjunct2, THEN conjunct2, THEN conjunct2, THEN conjunct1]
    by simp
  have D: "calls (new_events empty_world (snd ?ev)) = stated_evaluation args0 (fst test0) (snd test0)"
    using t1 [THEN conjunct2, THEN conjunct2, THEN conjunct2, THEN conjunct1] eval0 by simp
  have g: "select_columns frame0 [''BODY'', ''REMOVED'']
      = Inr \<lparr>df_index = [SInt 0, SInt 1],
              df_cols = [(''BODY'', [SStr ''first'', SStr ''second'']),
                         (''REMOVED'', [SInt 0, SInt 1])]\<rparr>"
    by (simp add: select_columns_def frame0_def)
  have rd: "\<And>frame. read_csv lib0 (files empty_world) ''test.csv'' = Inr frame \<longleftrightarrow> frame = frame0"
    by (auto simp: lib0_def)
  from t1 [THEN conjunct2, THEN conjunct2, THEN conjunct2, THEN conjunct2, THEN conjunct2,
        THEN conjunct2, THEN spec, of "()", THEN mp, OF eval0]
  obtain frame gold where fg: "read_csv lib0 (files empty_world) (test_file args0) = Inr frame"
    "select_columns frame [''BODY'', ''REMOVED''] = Inr gold"
    "files (snd ?ev) = (files empty_world)(predictions_file args0 \<mapsto>
        TableFile [CHR 0x09] (''ID'' # map fst (df_cols gold))
          (map (\<lambda>i. df_index gold ! i # map (\<lambda>(c, vs). vs ! i) (df_cols gold))
             [0..<length (df_index gold)]))"
    by blast
  have "frame = frame0" using fg(1) rd by (simp add: sp)
  with fg(2) g have "gold = \<lparr>df_index = [SInt 0, SInt 1],
              df_cols = [(''BODY'', [SStr ''first'', SStr ''second'']),
                         (''REMOVED'', [SInt 0, SInt 1])]\<rparr>"
    by simp
  with fg(3) have E: "files (snd ?ev) ''pred.tsv''
     = Some (TableFile [CHR 0x09] [''ID'', ''BODY'', ''REMOVED'']
               [[SInt 0, SStr ''first'', SInt 0], [SInt 1, SStr ''second'', SInt 1]])"
    by (simp add: sp upt_rec)
  show ?thesis
    using A B C D E unfolding p q by simp
qed

text \<open>
  C9, as amended. For every \<^verbatim>\<open>clf_name\<close> outside the three names the call has no
  dispatch branch: it always fails, makes no library call (no fit, no fallback to a
  default classifier) and writes no file; when the train and test inputs are arrays it
  reaches \<^verbatim>\<open>clf.fit\<close> with \<^verbatim>\<open>clf\<close> unassigned and the failure is
  \<^verbatim>\<open>UnboundLocalError\<close>.
\<close>

theorem unknown_classifier_name_is_unbound:
  assumes "clf_name \<notin> {''randomforest'', ''svc'', ''mlp''}"
    and "make_classifier_and_predict L a (x_train, y_train) (x_test, y_test)
             names seed clf_name w = (r, w')"
  shows "(\<exists>e. r = Inl e)
     \<and> calls (new_events w w') = []
     \<and> files w' = files w
     \<and> (\<forall>mtr mte. x_train = Array mtr \<and> x_test = Array mte \<longrightarrow>
           r = Inl (UnboundLocalError ''clf''))"
proof -
  from assms(1) have "clf_name \<noteq> ''randomforest''" "clf_name \<noteq> ''svc''" "clf_name \<noteq> ''mlp''"
    by simp_all
  from unselected_run [OF assms(2) this] obtain evs where
    "trace w' = trace w @ evs" "calls evs = []" "files w' = files w" "\<exists>e. r = Inl e"
    "\<forall>mtr mte. x_train = Array mtr \<and> x_test = Array mte \<longrightarrow> r = Inl (UnboundLocalError ''clf'')"
    by blast
  then show ?thesis by simp
qed

theorem unknown_classifier_name_is_unbound_witness:
  "''knn'' \<notin> {''randomforest'', ''svc'', ''mlp''}
   \<and> fst (make_classifier_and_predict lib0 args0 train0 test0 [''kept'', ''removed''] 7
           ''knn'' empty_world) = Inl (UnboundLocalError ''clf'')"
proof -
  let ?run = "make_classifier_and_predict lib0 args0 train0 test0 [''kept'', ''removed'']
     7 ''knn'' empty_world"
  have n: "''knn'' \<notin> {''randomforest'', ''svc'', ''mlp''}" by simp
  have r: "make_classifier_and_predict lib0 args0 (Array matrix0, np_array [SInt 0, SInt 1])
      (Array matrix0, np_array [SInt 1, SInt 0]) [''kept'', ''removed''] 7 ''knn'' empty_world
      = (fst ?run, snd ?run)"
    by (simp add: train0_def test0_def)
  show ?thesis
    using n unknown_classifier_name_is_unbound [OF n r] by simp
qed

text \<open>
  C9 fails as stated when an input is the empty list that \<^verbatim>\<open>encode_or_load_data\<close> can
  return: the debug record reads \<^verbatim>\<open>x_train.shape\<close> first and the call fails with
  \<^verbatim>\<open>AttributeError\<close>, before \<^verbatim>\<open>clf.fit\<close> is reached.
\<close>

theorem unknown_name_empty_inputs_counterexample:
  "''knn'' \<notin> {''randomforest'', ''svc'', ''mlp''}
   \<and> fst (make_classifier_and_predict lib0 args0 (EmptyList, np_array [SInt 0, SInt 1])
           (EmptyList, np_array [SInt 1, SInt 0]) [''kept'', ''removed''] 7 ''knn'' empty_world)
      = Inl (AttributeError ''shape'')"
  by (simp add: make_classifier_and_predict_def shape_of_def)

end
